theory Spec2Isabelle
  imports Main "HOL-Library.Word"
begin

unbundle bit_operations_syntax

section \<open>Data model of pkg/api/bytes.go\<close>

text \<open>
  The file holds three HTTP handlers of the api package: \<open>bytesUploadHandler\<close>,
  \<open>bytesGetHandler\<close> and \<open>bytesHeadHandler\<close>. They are thin orchestration code
  over collaborators that live in other packages (the session store, the stamping
  putter, the split pipeline, the access-control handler, the chunk getter). The
  handlers are embedded as functions over a record of those collaborators; every
  collaborator with an effect is a state transformer on an abstract service state, and
  every call a handler makes to one is appended to a trace, in program order.
  Logging, tracing spans and the deferred upload-speed metric have no effect on the
  response or on the collaborators and are left out.
\<close>

type_synonym bytes = "8 word list"

text \<open>\<open>swarm.Address\<close>: a byte string; \<open>swarm.ZeroAddress\<close> is the empty one.\<close>

type_synonym address = bytes

definition ZeroAddress :: address where
  "ZeroAddress = []"

definition IsZero :: "address \<Rightarrow> bool" where
  "IsZero a = (a = ZeroAddress)"

subsection \<open>Errors\<close>

text \<open>
  The sentinel error values the handlers test for with \<open>errors.Is\<close>, two more that
  stand for errors none of the tests match, and wrapping as \<open>fmt.Errorf("...: %w", err)\<close>
  does it. \<open>errors_Is\<close> walks the chain of wrapped errors.
\<close>

datatype sentinel =
    storage_ErrNotFound
  | errBatchUnusable
  | postage_ErrNotUsable
  | postage_ErrNotFound
  | errInvalidPostageBatch
  | errUnsupportedDevNodeOperation
  | postage_ErrBucketFull
  | accesscontrol_ErrNotFound
  | accesscontrol_ErrInvalidPublicKey
  | accesscontrol_ErrSecretKeyInfinity
  | accesscontrol_ErrUnexpectedType
  | errActUpload
  | context_Canceled
  | errOther string

datatype error = Sentinel sentinel | Wrap string error

fun errors_Is :: "error \<Rightarrow> sentinel \<Rightarrow> bool" where
  "errors_Is (Sentinel s) target = (s = target)"
| "errors_Is (Wrap msg e) target = errors_Is e target"

subsection \<open>Requests and responses\<close>

text \<open>
  The anonymous \<open>headers\<close> struct of \<open>bytesUploadHandler\<close> (lines 37-46). The tag
  is a \<open>uint64\<close> that the handler compares with 0 and passes on, without arithmetic:
  it is a natural number here. \<open>Deferred\<close> is a \<open>*bool\<close>, \<open>None\<close> when the header is
  absent.
\<close>

record headers =
  BatchID :: bytes
  SwarmTag :: nat
  Pin :: bool
  Deferred :: "bool option"
  Encrypt :: bool
  RLevel :: nat
  Act :: bool
  HistoryAddress :: address

text \<open>\<open>putterOptions\<close> as the handler fills it (lines 77-82).\<close>

record putterOptions =
  po_BatchID :: bytes
  po_TagID :: nat
  po_Pin :: bool
  po_Deferred :: bool

text \<open>
  Header values are kept as the values the handler formats:
  \<open>fmt.Sprint(tag)\<close>, \<open>historyReference.String()\<close>, \<open>strconv.FormatInt(span, 10)\<close>
  and string constants.
\<close>

datatype hvalue = HStr string | HTag nat | HAddr address | HInt int

text \<open>
  What a \<open>jsonhttp\<close> call writes as the body: a message, an error value, nothing,
  or the \<open>bytesPostResponse\<close> struct (lines 28-30). A download writes the byte
  stream of the object, which is read lazily and may break off with an error.
\<close>

datatype resp_body =
    Message string
  | ErrorBody sentinel
  | NoMessage
  | bytesPostResponse address
  | Content "error + bytes"

type_synonym header_map = "string \<Rightarrow> hvalue list"

record response =
  status :: nat
  header :: header_map
  body :: resp_body

definition no_headers :: header_map where
  "no_headers = (\<lambda>k. [])"

text \<open>\<open>http.Header.Set\<close> replaces the values of a key, \<open>Add\<close> appends one.\<close>

definition Header_Set :: "string \<Rightarrow> hvalue \<Rightarrow> header_map \<Rightarrow> header_map" where
  "Header_Set k v h = h(k := [v])"

definition Header_Add :: "string \<Rightarrow> hvalue \<Rightarrow> header_map \<Rightarrow> header_map" where
  "Header_Add k v h = h(k := h k @ [v])"

text \<open>
  The header-name constants are declared elsewhere in the api package; the names of
  the tag and history headers are the ones of the \<open>map\<close> tags of the struct above.
\<close>

definition SwarmTagHeader :: string where
  "SwarmTagHeader = ''Swarm-Tag''"

definition SwarmActHistoryAddressHeader :: string where
  "SwarmActHistoryAddressHeader = ''Swarm-Act-History-Address''"

definition AccessControlExposeHeaders :: string where
  "AccessControlExposeHeaders = ''Access-Control-Expose-Headers''"

definition ContentTypeHeader :: string where
  "ContentTypeHeader = ''Content-Type''"

definition ContentLengthHeader :: string where
  "ContentLengthHeader = ''Content-Length''"

text \<open>The \<open>net/http\<close> status codes the handlers use.\<close>

definition StatusOK :: nat where "StatusOK = 200"
definition StatusCreated :: nat where "StatusCreated = 201"
definition StatusBadRequest :: nat where "StatusBadRequest = 400"
definition StatusPaymentRequired :: nat where "StatusPaymentRequired = 402"
definition StatusNotFound :: nat where "StatusNotFound = 404"
definition StatusUnprocessableEntity :: nat where "StatusUnprocessableEntity = 422"
definition StatusInternalServerError :: nat where "StatusInternalServerError = 500"

subsection \<open>Collaborators and the trace of calls\<close>

text \<open>
  One event per call a handler makes to a collaborator, with the arguments and the
  result of the call, and one per status written to the client's response writer.
\<close>

datatype event =
    EvGetOrCreateSessionID nat "error + nat"
  | EvNewStamperPutter putterOptions "error option"
  | EvPipeline bool nat "error + address"
  | EvActEncryption address address "error + address \<times> address"
  | EvDone address "error option"
  | EvCleanup "error option"
  | EvWriteHeader nat

text \<open>
  The collaborators of \<open>bytesUploadHandler\<close>, none of them defined in this file:
  \<open>s.mapStructure\<close> (a failure is the function that writes the error response),
  \<open>defaultUploadMethod\<close>, \<open>s.getOrCreateSessionID\<close>, \<open>s.newStamperPutter\<close>,
  the pipeline \<open>requestPipelineFn(putter, encrypt, rLevel)\<close> applied to the request
  body, \<open>s.actEncryptionHandler\<close> (its result is the encrypted reference and the
  history reference), \<open>putter.Done\<close> and \<open>putter.Cleanup\<close>.
\<close>

record ('s, 'raw) env =
  mapStructure :: "'raw \<Rightarrow> (string \<Rightarrow> response) + headers"
  defaultUploadMethod :: "bool option \<Rightarrow> bool"
  getOrCreateSessionID :: "nat \<Rightarrow> 's \<Rightarrow> (error + nat) \<times> 's"
  newStamperPutter :: "putterOptions \<Rightarrow> 's \<Rightarrow> error option \<times> 's"
  requestPipelineFn :: "bool \<Rightarrow> nat \<Rightarrow> bytes \<Rightarrow> 's \<Rightarrow> (error + address) \<times> 's"
  actEncryptionHandler :: "address \<Rightarrow> address \<Rightarrow> 's \<Rightarrow> (error + address \<times> address) \<times> 's"
  putter_Done :: "address \<Rightarrow> 's \<Rightarrow> error option \<times> 's"
  putter_Cleanup :: "'s \<Rightarrow> error option \<times> 's"

text \<open>A run: the service state and the calls made so far, oldest first.\<close>

type_synonym 's run = "'s \<times> event list"

definition WriteHeader :: "nat \<Rightarrow> 's run \<Rightarrow> 's run" where
  "WriteHeader code r = (fst r, snd r @ [EvWriteHeader code])"

text \<open>
  Modelled from the spec: \<open>cleanupOnErrWriter.WriteHeader\<close> is not defined in this
  file, only the construction of the writer (lines 102-106) is. The writer wraps the
  response writer; when an error status (400 or above) is written through it, it first
  calls \<open>onErr\<close>, here \<open>putter.Cleanup\<close>, whose own error is only logged, and then
  writes the status to the wrapped writer ("Any failure routes through
  CleanupCoordinator before the error is surfaced").
\<close>

definition cleanupOnErrWriter_WriteHeader ::
  "('s \<Rightarrow> error option \<times> 's) \<Rightarrow> nat \<Rightarrow> 's run \<Rightarrow> 's run" where
  "cleanupOnErrWriter_WriteHeader onErr code r =
     (if StatusBadRequest \<le> code
      then (let (cerr, st') = onErr (fst r)
            in WriteHeader code (st', snd r @ [EvCleanup cerr]))
      else WriteHeader code r)"

text \<open>
  \<open>jsonhttp.Respond\<close> and its named variants: the status goes to the writer's
  \<open>WriteHeader\<close>, then the body is written. The first argument is the
  \<open>WriteHeader\<close> of the writer passed: \<open>w\<close> or \<open>ow\<close>. The response keeps the
  headers the handler has set; the content-type header that \<open>jsonhttp\<close> adds by
  itself is left out.
\<close>

definition jsonhttp_Respond ::
  "(nat \<Rightarrow> 's run \<Rightarrow> 's run) \<Rightarrow> header_map \<Rightarrow> nat \<Rightarrow> resp_body \<Rightarrow> 's run
     \<Rightarrow> response \<times> 's run" where
  "jsonhttp_Respond wh hm code b r =
     (\<lparr>status = code, header = hm, body = b\<rparr>, wh code r)"

section \<open>bytesUploadHandler\<close>

text \<open>
  Lines 102-168: from the construction of \<open>ow\<close> to the response. \<open>tag\<close> is the
  session id of lines 52-73, \<open>r\<close> the run after \<open>newStamperPutter\<close> succeeded.
\<close>

definition upload_with_putter ::
  "('s, 'raw) env \<Rightarrow> headers \<Rightarrow> nat \<Rightarrow> bytes \<Rightarrow> 's run \<Rightarrow> response \<times> 's run" where
  "upload_with_putter e h tag reqBody r =
     (let w = WriteHeader;
          ow = cleanupOnErrWriter_WriteHeader (putter_Cleanup e);
          (pres, st1) = requestPipelineFn e (Encrypt h) (RLevel h) reqBody (fst r);
          r1 = (st1, snd r @ [EvPipeline (Encrypt h) (RLevel h) pres])
      in case pres of
           Inl err \<Rightarrow>
             (if errors_Is err postage_ErrBucketFull
              then jsonhttp_Respond ow no_headers StatusPaymentRequired
                     (Message ''batch is overissued'') r1
              else jsonhttp_Respond ow no_headers StatusInternalServerError
                     (Message ''split write all failed'') r1)
         | Inr reference \<Rightarrow>
             (let (ares, r2) =
                    (if Act h
                     then (let (a, st2) = actEncryptionHandler e reference (HistoryAddress h) (fst r1)
                           in (a, (st2, snd r1 @ [EvActEncryption reference (HistoryAddress h) a])))
                     else (Inr (reference, ZeroAddress), r1))
              in case ares of
                   Inl err \<Rightarrow>
                     (if errors_Is err accesscontrol_ErrNotFound
                      then jsonhttp_Respond w no_headers StatusNotFound
                             (Message ''act or history entry not found'') r2
                      else if errors_Is err accesscontrol_ErrInvalidPublicKey
                              \<or> errors_Is err accesscontrol_ErrSecretKeyInfinity
                      then jsonhttp_Respond w no_headers StatusBadRequest
                             (Message ''invalid public key'') r2
                      else if errors_Is err accesscontrol_ErrUnexpectedType
                      then jsonhttp_Respond w no_headers StatusBadRequest
                             (Message ''failed to create history'') r2
                      else jsonhttp_Respond w no_headers StatusInternalServerError
                             (ErrorBody errActUpload) r2)
                 | Inr (encryptedReference, historyReference) \<Rightarrow>
                     (let (derr, st3) = putter_Done e reference (fst r2);
                          r3 = (st3, snd r2 @ [EvDone reference derr])
                      in case derr of
                           Some err \<Rightarrow>
                             jsonhttp_Respond ow no_headers StatusInternalServerError
                               (Message ''done split failed'') r3
                         | None \<Rightarrow>
                             (let hd1 = (if tag \<noteq> 0
                                         then Header_Set SwarmTagHeader (HTag tag) no_headers
                                         else no_headers);
                                  hd2 = Header_Set AccessControlExposeHeaders
                                          (HStr SwarmTagHeader) hd1;
                                  hd3 = (if Act h
                                         then Header_Add AccessControlExposeHeaders
                                                (HStr SwarmActHistoryAddressHeader)
                                                (Header_Set SwarmActHistoryAddressHeader
                                                   (HAddr historyReference) hd2)
                                         else hd2)
                              in jsonhttp_Respond w hd3 StatusCreated
                                   (bytesPostResponse encryptedReference) r3))))"

text \<open>Lines 77-100: the putter is created, or the request ends with its error.\<close>

definition upload_with_tag ::
  "('s, 'raw) env \<Rightarrow> headers \<Rightarrow> bool \<Rightarrow> nat \<Rightarrow> bytes \<Rightarrow> 's run \<Rightarrow> response \<times> 's run" where
  "upload_with_tag e h deferred tag reqBody r =
     (let opts = \<lparr>po_BatchID = BatchID h, po_TagID = tag, po_Pin = Pin h,
                  po_Deferred = deferred\<rparr>;
          (perr, st1) = newStamperPutter e opts (fst r);
          r1 = (st1, snd r @ [EvNewStamperPutter opts perr])
      in case perr of
           Some err \<Rightarrow>
             (if errors_Is err errBatchUnusable \<or> errors_Is err postage_ErrNotUsable
              then jsonhttp_Respond WriteHeader no_headers StatusUnprocessableEntity
                     (Message ''batch not usable yet or does not exist'') r1
              else if errors_Is err postage_ErrNotFound
              then jsonhttp_Respond WriteHeader no_headers StatusNotFound
                     (Message ''batch with id not found'') r1
              else if errors_Is err errInvalidPostageBatch
              then jsonhttp_Respond WriteHeader no_headers StatusBadRequest
                     (Message ''invalid batch id'') r1
              else if errors_Is err errUnsupportedDevNodeOperation
              then jsonhttp_Respond WriteHeader no_headers StatusBadRequest
                     (ErrorBody errUnsupportedDevNodeOperation) r1
              else jsonhttp_Respond WriteHeader no_headers StatusBadRequest NoMessage r1)
         | None \<Rightarrow> upload_with_putter e h tag reqBody r1)"

text \<open>
  Lines 33-73, then the rest: the headers are mapped and validated, the session id is
  looked up or created when the upload is deferred or pinned.
\<close>

definition bytesUploadHandler ::
  "('s, 'raw) env \<Rightarrow> 'raw \<Rightarrow> bytes \<Rightarrow> 's \<Rightarrow> response \<times> 's run" where
  "bytesUploadHandler e raw reqBody st =
     (case mapStructure e raw of
        Inl response \<Rightarrow>
          (let resp = response ''invalid header params''
           in (resp, WriteHeader (status resp) (st, [])))
      | Inr h \<Rightarrow>
          (let deferred = defaultUploadMethod e (Deferred h)
           in if deferred \<or> Pin h
              then (let (tres, st1) = getOrCreateSessionID e (SwarmTag h) st;
                        r1 = (st1, [EvGetOrCreateSessionID (SwarmTag h) tres])
                    in case tres of
                         Inl err \<Rightarrow>
                           (if errors_Is err storage_ErrNotFound
                            then jsonhttp_Respond WriteHeader no_headers StatusNotFound
                                   (Message ''tag not found'') r1
                            else jsonhttp_Respond WriteHeader no_headers
                                   StatusInternalServerError
                                   (Message ''cannot get or create tag'') r1)
                       | Inr tag \<Rightarrow> upload_with_tag e h deferred tag reqBody r1)
              else upload_with_tag e h deferred 0 reqBody (st, [])))"

text \<open>
  The state after a trace: each logged call applied to the state in turn. A status
  written to the client leaves the state alone. This is how the frame of a run is
  stated: the handler changes the state through its logged calls and in no other way.
\<close>

fun apply_event :: "('s, 'raw) env \<Rightarrow> bytes \<Rightarrow> event \<Rightarrow> 's \<Rightarrow> 's" where
  "apply_event e reqBody (EvGetOrCreateSessionID i res) st = snd (getOrCreateSessionID e i st)"
| "apply_event e reqBody (EvNewStamperPutter opts res) st = snd (newStamperPutter e opts st)"
| "apply_event e reqBody (EvPipeline enc rl res) st = snd (requestPipelineFn e enc rl reqBody st)"
| "apply_event e reqBody (EvActEncryption ref hist res) st = snd (actEncryptionHandler e ref hist st)"
| "apply_event e reqBody (EvDone ref res) st = snd (putter_Done e ref st)"
| "apply_event e reqBody (EvCleanup res) st = snd (putter_Cleanup e st)"
| "apply_event e reqBody (EvWriteHeader code) st = st"

definition replay :: "('s, 'raw) env \<Rightarrow> bytes \<Rightarrow> event list \<Rightarrow> 's \<Rightarrow> 's" where
  "replay e reqBody tr st = foldl (\<lambda>s ev. apply_event e reqBody ev s) st tr"

text \<open>Kinds of events, to say which calls a trace holds.\<close>

fun is_session_call :: "event \<Rightarrow> bool" where
  "is_session_call (EvGetOrCreateSessionID i res) = True"
| "is_session_call ev = False"

fun is_Done :: "event \<Rightarrow> bool" where
  "is_Done (EvDone root res) = True"
| "is_Done ev = False"

fun is_Cleanup :: "event \<Rightarrow> bool" where
  "is_Cleanup (EvCleanup res) = True"
| "is_Cleanup ev = False"

section \<open>bytesHeadHandler\<close>

text \<open>\<open>swarm.Chunk\<close>, as far as the handler reads it: \<open>Address()\<close> and \<open>Data()\<close>.\<close>

record chunk =
  ch_address :: address
  ch_data :: bytes

definition SpanSize :: nat where
  "SpanSize = 8"

text \<open>
  \<open>binary.LittleEndian.Uint64\<close>: byte \<open>i\<close> of the slice is shifted left by \<open>8 * i\<close>
  bits. Go panics on a slice of fewer than 8 bytes; the handler passes the first
  \<open>SpanSize\<close> bytes of the data of a chunk that \<open>cac.Valid\<close> accepted, which are 8
  (\<open>valid_span_prefix\<close> below).
\<close>

fun LittleEndian_Uint64 :: "bytes \<Rightarrow> 64 word" where
  "LittleEndian_Uint64 [] = 0"
| "LittleEndian_Uint64 (b # bs) = ucast b OR push_bit 8 (LittleEndian_Uint64 bs)"

text \<open>
  The collaborators of \<open>bytesHeadHandler\<close>: \<open>s.mapStructure\<close> on the path variables
  (\<open>None\<close> when it rejects them), \<open>getAddressFromContext\<close> of the request,
  the getter \<open>s.storer.Download(true)\<close>, and for \<open>cac.Valid\<close> the hash of a span and a
  payload and the maximal payload size of a chunk (\<open>swarm.ChunkSize\<close>).
\<close>

record 'raw head_env =
  head_mapStructure :: "'raw \<Rightarrow> address option"
  getAddressFromContext :: address
  getter_Get :: "address \<Rightarrow> error + chunk"
  hasher :: "bytes \<Rightarrow> bytes \<Rightarrow> bytes"
  ChunkSize :: nat

text \<open>
  Modelled from the spec: \<open>cac.Valid\<close> is not defined in this file. A valid
  content-addressed unit has a span prefix of \<open>SpanSize\<close> bytes, a payload of at most
  the unit size after it, and an address that is the hash of the length prefix and
  the payload ("address = Hash(lengthPrefix || payload)", recomputed on read).
\<close>

definition cac_Valid :: "('raw, 'z) head_env_scheme \<Rightarrow> chunk \<Rightarrow> bool" where
  "cac_Valid e ch =
     (SpanSize \<le> length (ch_data ch)
      \<and> length (ch_data ch) - SpanSize \<le> ChunkSize e
      \<and> hasher e (take SpanSize (ch_data ch)) (drop SpanSize (ch_data ch)) = ch_address ch)"

text \<open>
  Lines 194-230. \<open>int64(...)\<close> of a \<open>uint64\<close> keeps the 64 bits and reads them as
  two's complement (\<open>sint\<close>); \<open>len\<close> is never negative.
\<close>

definition bytesHeadHandler :: "('raw, 'z) head_env_scheme \<Rightarrow> 'raw \<Rightarrow> response" where
  "bytesHeadHandler e raw =
     (case head_mapStructure e raw of
        None \<Rightarrow> \<lparr>status = StatusBadRequest, header = no_headers, body = NoMessage\<rparr>
      | Some paths_Address \<Rightarrow>
          (let v = getAddressFromContext e;
               address = (if \<not> IsZero v then v else paths_Address)
           in case getter_Get e address of
                Inl err \<Rightarrow> \<lparr>status = StatusNotFound, header = no_headers, body = NoMessage\<rparr>
              | Inr ch \<Rightarrow>
                  (let hd1 = Header_Add AccessControlExposeHeaders
                               (HStr ''Accept-Ranges, Content-Encoding'') no_headers;
                       hd2 = Header_Add ContentTypeHeader
                               (HStr ''application/octet-stream'') hd1;
                       span = (if cac_Valid e ch
                               then sint (LittleEndian_Uint64 (take SpanSize (ch_data ch)))
                               else int (length (ch_data ch)))
                   in \<lparr>status = StatusOK,
                       header = Header_Set ContentLengthHeader (HInt span) hd2,
                       body = NoMessage\<rparr>)))"

text \<open>
  Modelled from the spec: the Store behind the getter is not part of this file.
  "Get(ctx, address) -> (unit, error) with NotFound on miss".
\<close>

definition Store_Get :: "(address \<rightharpoonup> chunk) \<Rightarrow> address \<Rightarrow> error + chunk" where
  "Store_Get store a =
     (case store a of None \<Rightarrow> Inl (Sentinel storage_ErrNotFound) | Some ch \<Rightarrow> Inr ch)"

section \<open>bytesGetHandler\<close>

text \<open>
  The download handler has the collaborators of the length-only query and two more:
  the function that \<open>s.mapStructure\<close> returns when it rejects the path variables,
  which writes the error response, and the Reconstructor's \<open>Stream\<close> of a root unit.
\<close>

record 'raw get_env = "'raw head_env" +
  path_rejection :: "'raw \<Rightarrow> string \<Rightarrow> response"
  Stream :: "chunk \<Rightarrow> error + bytes"

text \<open>
  Modelled from the spec: \<open>downloadHandler\<close> is not defined in this file, only its
  call (line 191) is. "Resolve(ctx, address) -> (rootUnit, error) fails NotFound if
  the address does not resolve via Store": the root unit is fetched through the
  getter, and a fetch error that is \<open>storage.ErrNotFound\<close> is answered Not Found.
  The spec keeps the other kinds of error (transport, cancellation, internal) apart
  from NotFound: they are answered Internal Server Error. "Stream(ctx, rootUnit) ->
  byte stream" is lazy: it is read after the root unit resolved, so the body is the
  stream and what happens in it does not change the status. The headers are the
  additional headers of the caller. The flags of the call (etag, not headers-only, no
  root chunk given) select this path.
\<close>

definition downloadHandler ::
  "('raw, 'z) get_env_scheme \<Rightarrow> address \<Rightarrow> header_map \<Rightarrow> response" where
  "downloadHandler e address additionalHeaders =
     (case getter_Get e address of
        Inl err \<Rightarrow>
          (if errors_Is err storage_ErrNotFound
           then \<lparr>status = StatusNotFound, header = no_headers, body = NoMessage\<rparr>
           else \<lparr>status = StatusInternalServerError, header = no_headers,
                  body = NoMessage\<rparr>)
      | Inr rootUnit \<Rightarrow>
          \<lparr>status = StatusOK, header = additionalHeaders, body = Content (Stream e rootUnit)\<rparr>)"

text \<open>
  Lines 171-192. \<open>http.Header{ContentTypeHeader: {"application/octet-stream"}}\<close> is
  the header map with that one key.
\<close>

definition bytesGetHandler :: "('raw, 'z) get_env_scheme \<Rightarrow> 'raw \<Rightarrow> response" where
  "bytesGetHandler e raw =
     (case head_mapStructure e raw of
        None \<Rightarrow> path_rejection e raw ''invalid path params''
      | Some paths_Address \<Rightarrow>
          (let v = getAddressFromContext e;
               address = (if \<not> IsZero v then v else paths_Address);
               additionalHeaders = Header_Set ContentTypeHeader
                                     (HStr ''application/octet-stream'') no_headers
           in downloadHandler e address additionalHeaders))"

section \<open>The session tracker and the putter, from their contracts\<close>

record session =
  sid :: nat
  split :: nat
  stored :: nat
  sent :: nat
  synced :: nat

definition new_session :: "nat \<Rightarrow> session" where
  "new_session i = \<lparr>sid = i, split = 0, stored = 0, sent = 0, synced = 0\<rparr>"

definition fresh_id :: "session list \<Rightarrow> nat" where
  "fresh_id ss = Suc (foldr max (map sid ss) 0)"

text \<open>
  Modelled from the spec: \<open>getOrCreateSessionID\<close> is not defined in this file, only
  its call (line 59) is. "GetOrCreate(id) -> (session, error): id=0 allocates a new
  session; nonzero id that does not exist fails NotFound." The new session gets an id
  that no session has, and the id is what the handler receives.
\<close>

definition SessionTracker_GetOrCreate :: "nat \<Rightarrow> session list \<Rightarrow> (error + nat) \<times> session list" where
  "SessionTracker_GetOrCreate i ss =
     (if i = 0 then (Inr (fresh_id ss), ss @ [new_session (fresh_id ss)])
      else if i \<in> set (map sid ss) then (Inr i, ss)
      else (Inl (Sentinel storage_ErrNotFound), ss))"

datatype phase = Staging | Committed | Aborted

text \<open>
  The putter of one upload: its phase, the units persisted through it, and the
  reservations a finished upload keeps (the pin, the session not marked failed).
\<close>

record putter =
  phase :: phase
  units :: "address list"
  pin_held :: bool
  session_failed :: bool

text \<open>
  Modelled from the spec: \<open>putter.Cleanup\<close> and \<open>putter.Done\<close> are not defined in
  this file. "State machine: staging, committed, aborted; transitions from staging to
  committed or aborted only; aborted and committed are terminal and Cleanup in either
  terminal state is a no-op." Cleanup releases the reservations (it undoes the pin and
  marks the session as failed) and does not delete persisted units. The spec does not
  say what Done returns in a terminal state: here it fails and changes nothing.
\<close>

definition Putter_Cleanup :: "putter \<Rightarrow> error option \<times> putter" where
  "Putter_Cleanup p =
     (if phase p = Staging
      then (None, p\<lparr>phase := Aborted, pin_held := False, session_failed := True\<rparr>)
      else (None, p))"

definition Putter_Done :: "address \<Rightarrow> putter \<Rightarrow> error option \<times> putter" where
  "Putter_Done root p =
     (if phase p = Staging
      then (None, p\<lparr>phase := Committed\<rparr>)
      else (Some (Sentinel (errOther ''putter is closed'')), p))"

section \<open>A scripted service for concrete runs\<close>

text \<open>
  A service state made of the session tracker and the putter above, and collaborators
  whose outcomes are scripted: the putter creation, the pipeline (with the units it
  persists before it returns), the access-control step and an injected failure of
  Done. The header mapping only enforces \<open>validate:"required"\<close> on the batch id. It is
  used to run the handler on concrete requests.
\<close>

record world =
  w_sessions :: "session list"
  w_putter :: putter

record script =
  sc_putter :: "error option"
  sc_units :: "address list"
  sc_pipeline :: "error + address"
  sc_act :: "error + address \<times> address"
  sc_done :: "error option"

definition scripted_env :: "script \<Rightarrow> (world, headers) env" where
  "scripted_env sc =
     \<lparr>mapStructure =
        (\<lambda>h. if BatchID h = []
             then Inl (\<lambda>msg. \<lparr>status = StatusBadRequest, header = no_headers,
                               body = Message msg\<rparr>)
             else Inr h),
      defaultUploadMethod = (\<lambda>d. case d of None \<Rightarrow> True | Some b \<Rightarrow> b),
      getOrCreateSessionID =
        (\<lambda>i w. (fst (SessionTracker_GetOrCreate i (w_sessions w)),
                 w\<lparr>w_sessions := snd (SessionTracker_GetOrCreate i (w_sessions w))\<rparr>)),
      newStamperPutter =
        (\<lambda>opts w. case sc_putter sc of
                     Some err \<Rightarrow> (Some err, w)
                   | None \<Rightarrow>
                       (None, w\<lparr>w_putter := \<lparr>phase = Staging, units = [],
                                               pin_held = po_Pin opts,
                                               session_failed = False\<rparr>\<rparr>)),
      requestPipelineFn =
        (\<lambda>enc rl b w.
           (sc_pipeline sc,
            w\<lparr>w_putter := (w_putter w)\<lparr>units := units (w_putter w) @ sc_units sc\<rparr>\<rparr>)),
      actEncryptionHandler = (\<lambda>ref hist w. (sc_act sc, w)),
      putter_Done =
        (\<lambda>root w. case sc_done sc of
                     Some err \<Rightarrow> (Some err, w)
                   | None \<Rightarrow> (fst (Putter_Done root (w_putter w)),
                              w\<lparr>w_putter := snd (Putter_Done root (w_putter w))\<rparr>)),
      putter_Cleanup =
        (\<lambda>w. (fst (Putter_Cleanup (w_putter w)),
               w\<lparr>w_putter := snd (Putter_Cleanup (w_putter w))\<rparr>))\<rparr>"

definition world0 :: world where
  "world0 = \<lparr>w_sessions = [],
             w_putter = \<lparr>phase = Staging, units = [], pin_held = False,
                          session_failed = False\<rparr>\<rparr>"

text \<open>A request with a batch id and nothing else set; the upload is not deferred.\<close>

definition plain_headers :: headers where
  "plain_headers =
     \<lparr>BatchID = [1], SwarmTag = 0, Pin = False, Deferred = Some False, Encrypt = False,
      RLevel = 0, Act = False, HistoryAddress = []\<rparr>"

text \<open>A script in which every step succeeds: the root reference is \<open>[1]\<close>, the
  access-control step returns the encrypted reference \<open>[2]\<close> and the history \<open>[3]\<close>.\<close>

definition ok_script :: script where
  "ok_script =
     \<lparr>sc_putter = None, sc_units = [[1]], sc_pipeline = Inr [1],
      sc_act = Inr ([2], [3]), sc_done = None\<rparr>"

text \<open>
  A getter whose request context is already cancelled: every fetch returns the
  cancellation error, whatever the Store holds.
\<close>

definition cancelled_Get :: "(address \<rightharpoonup> chunk) \<Rightarrow> address \<Rightarrow> error + chunk" where
  "cancelled_Get store a = Inl (Sentinel context_Canceled)"

text \<open>A stand-in hash for concrete chunks: the payload length and the span bytes.\<close>

definition toy_hash :: "bytes \<Rightarrow> bytes \<Rightarrow> bytes" where
  "toy_hash span payload = word_of_nat (length payload) # span"

text \<open>
  A head service for concrete queries: the path variable is the address, required to
  be non-empty; the context carries no address; chunks are hashed with the stand-in
  hash and hold at most 4096 bytes of payload.
\<close>

definition demo_head_env :: "(address \<Rightarrow> error + chunk) \<Rightarrow> address head_env" where
  "demo_head_env g =
     \<lparr>head_mapStructure = (\<lambda>a. if a = [] then None else Some a),
      getAddressFromContext = ZeroAddress,
      getter_Get = g,
      hasher = toy_hash,
      ChunkSize = 4096\<rparr>"

text \<open>
  Four chunks: the root of a 1 MiB object (span 1048576 and two child references), the
  single leaf of a 50-byte object, a bare unit of 50 bytes whose address is not its
  hash, and a chunk whose span bytes are all \<open>0xff\<close>.
\<close>

definition mib_root :: chunk where
  "mib_root = \<lparr>ch_address = [64, 0, 0, 16, 0, 0, 0, 0, 0],
               ch_data = [0, 0, 16, 0, 0, 0, 0, 0] @ replicate 64 1\<rparr>"

definition small_leaf :: chunk where
  "small_leaf = \<lparr>ch_address = [50, 50, 0, 0, 0, 0, 0, 0, 0],
                 ch_data = [50, 0, 0, 0, 0, 0, 0, 0] @ replicate 50 2\<rparr>"

definition bare_unit :: chunk where
  "bare_unit = \<lparr>ch_address = [7], ch_data = replicate 50 0\<rparr>"

definition huge_span :: chunk where
  "huge_span = \<lparr>ch_address = [0, 255, 255, 255, 255, 255, 255, 255, 255],
                ch_data = [255, 255, 255, 255, 255, 255, 255, 255]\<rparr>"

definition demo_store :: "address \<rightharpoonup> chunk" where
  "demo_store =
     [ch_address mib_root \<mapsto> mib_root, ch_address small_leaf \<mapsto> small_leaf,
      ch_address bare_unit \<mapsto> bare_unit, ch_address huge_span \<mapsto> huge_span]"

text \<open>
  The same service for downloads: a rejected path is answered Bad Request, and the
  stream of a chunk is its data after the span, as for an object of a single leaf.
\<close>

definition demo_get_env :: "(address \<Rightarrow> error + chunk) \<Rightarrow> address get_env" where
  "demo_get_env g =
     \<lparr>head_mapStructure = (\<lambda>a. if a = [] then None else Some a),
      getAddressFromContext = ZeroAddress,
      getter_Get = g,
      hasher = toy_hash,
      ChunkSize = 4096,
      path_rejection = (\<lambda>a msg. \<lparr>status = StatusBadRequest, header = no_headers,
                                     body = Message msg\<rparr>),
      Stream = (\<lambda>ch. Inr (drop SpanSize (ch_data ch)))\<rparr>"

section \<open>The runs of bytesUploadHandler\<close>

lemmas writer_defs = jsonhttp_Respond_def WriteHeader_def cleanupOnErrWriter_WriteHeader_def

lemmas status_defs = StatusOK_def StatusCreated_def StatusBadRequest_def StatusPaymentRequired_def
  StatusNotFound_def StatusUnprocessableEntity_def StatusInternalServerError_def

lemmas header_defs = Header_Set_def Header_Add_def no_headers_def SwarmTagHeader_def
  SwarmActHistoryAddressHeader_def AccessControlExposeHeaders_def ContentTypeHeader_def
  ContentLengthHeader_def

lemma upload_with_putter_cases [consumes 1, case_names pipeline_failed act_failed done_failed created]:
  assumes run: "upload_with_putter e h tag reqBody r = (resp, r')"
  obtains
    (pipeline_failed) err cerr where
      "snd r' = snd r @ [EvPipeline (Encrypt h) (RLevel h) (Inl err), EvCleanup cerr,
                          EvWriteHeader (status resp)]"
      "status resp = (if errors_Is err postage_ErrBucketFull then StatusPaymentRequired
                      else StatusInternalServerError)"
      "body resp = Message (if errors_Is err postage_ErrBucketFull then ''batch is overissued''
                            else ''split write all failed'')"
  | (act_failed) reference err where
      "Act h"
      "snd r' = snd r @ [EvPipeline (Encrypt h) (RLevel h) (Inr reference),
                          EvActEncryption reference (HistoryAddress h) (Inl err),
                          EvWriteHeader (status resp)]"
      "status resp = StatusNotFound \<or> status resp = StatusBadRequest
         \<or> status resp = StatusInternalServerError"
  | (done_failed) reference acts err cerr where
      "snd r' = snd r @ EvPipeline (Encrypt h) (RLevel h) (Inr reference) # acts
                  @ [EvDone reference (Some err), EvCleanup cerr, EvWriteHeader (status resp)]"
      "status resp = StatusInternalServerError"
      "if Act h then \<exists>enc hist. acts = [EvActEncryption reference (HistoryAddress h) (Inr (enc, hist))]
       else acts = []"
  | (created) reference enc hist acts where
      "snd r' = snd r @ EvPipeline (Encrypt h) (RLevel h) (Inr reference) # acts
                  @ [EvDone reference None, EvWriteHeader (status resp)]"
      "status resp = StatusCreated"
      "body resp = bytesPostResponse enc"
      "if Act h then acts = [EvActEncryption reference (HistoryAddress h) (Inr (enc, hist))]
       else acts = [] \<and> enc = reference \<and> hist = ZeroAddress"
      "header resp SwarmTagHeader = (if tag \<noteq> 0 then [HTag tag] else [])"
      "header resp SwarmActHistoryAddressHeader = (if Act h then [HAddr hist] else [])"
proof (cases "requestPipelineFn e (Encrypt h) (RLevel h) reqBody (fst r)")
  case pipe: (Pair pres st1)
  show thesis
  proof (cases pres)
    case (Inl err)
    obtain cerr st2 where cl: "putter_Cleanup e st1 = (cerr, st2)"
      by (cases "putter_Cleanup e st1")
    from run pipe Inl cl show thesis
      by (intro pipeline_failed [of err cerr])
         (auto simp: upload_with_putter_def writer_defs status_defs Let_def split: if_splits)
  next
    case (Inr reference)
    define ar where "ar = (if Act h
        then (let (a, st2) = actEncryptionHandler e reference (HistoryAddress h) st1
              in (a, (st2, snd r @ [EvPipeline (Encrypt h) (RLevel h) (Inr reference),
                    EvActEncryption reference (HistoryAddress h) a])))
        else (Inr (reference, ZeroAddress),
              (st1, snd r @ [EvPipeline (Encrypt h) (RLevel h) (Inr reference)])))"
    obtain ares st2 tr2 where ar: "ar = (ares, (st2, tr2))"
      by (cases ar) auto
    show thesis
    proof (cases ares)
      case (Inl err)
      with ar have act: "Act h" and tr2: "tr2 = snd r @ [EvPipeline (Encrypt h) (RLevel h) (Inr reference),
                    EvActEncryption reference (HistoryAddress h) (Inl err)]"
        by (auto simp: ar_def split: if_splits prod.splits)
      from run pipe Inr ar Inl act tr2 show thesis
        by (intro act_failed [of reference err])
           (auto simp: upload_with_putter_def writer_defs ar_def Let_def split: if_splits prod.splits)
    next
      case aok: (Inr p)
      obtain enc hist where p: "p = (enc, hist)" by (cases p)
      define acts where "acts = (if Act h then [EvActEncryption reference (HistoryAddress h) (Inr (enc, hist))] else [])"
      from ar aok p have tr2: "tr2 = snd r @ EvPipeline (Encrypt h) (RLevel h) (Inr reference) # acts"
        and nact: "\<not> Act h \<Longrightarrow> enc = reference \<and> hist = ZeroAddress"
        by (auto simp: ar_def acts_def split: if_splits prod.splits)
      obtain derr st3 where dn: "putter_Done e reference st2 = (derr, st3)"
        by (cases "putter_Done e reference st2")
      show thesis
      proof (cases derr)
        case None
        from run pipe Inr ar aok p dn None tr2 nact show thesis
          by (intro created [of reference acts enc hist])
             (auto simp: upload_with_putter_def writer_defs ar_def acts_def Let_def header_defs
                   split: if_splits prod.splits)
      next
        case (Some err)
        obtain cerr st4 where cl: "putter_Cleanup e st3 = (cerr, st4)"
          by (cases "putter_Cleanup e st3")
        from run pipe Inr ar aok p dn Some cl tr2 show thesis
          by (intro done_failed [of reference acts err cerr])
             (auto simp: upload_with_putter_def writer_defs ar_def acts_def Let_def status_defs
                   split: if_splits prod.splits)
      qed
    qed
  qed
qed

lemma replay_append: "replay e b (xs @ ys) st = replay e b ys (replay e b xs st)"
  by (simp add: replay_def)

lemma replay_Nil: "replay e b [] st = st"
  by (simp add: replay_def)

lemma replay_Cons: "replay e b (ev # evs) st = replay e b evs (apply_event e b ev st)"
  by (simp add: replay_def)

lemma upload_with_putter_frame:
  assumes "upload_with_putter e h tag reqBody r = (resp, r')"
  shows "\<exists>new. snd r' = snd r @ new \<and> fst r' = replay e reqBody new (fst r)"
  using assms
  unfolding upload_with_putter_def writer_defs Let_def
  by (auto split: sum.splits option.splits prod.splits if_splits simp: replay_Cons replay_Nil)

lemma upload_with_tag_cases [consumes 1, case_names putter_failed putter_created]:
  assumes run: "upload_with_tag e h d tag reqBody r = (resp, r')"
  obtains
    (putter_failed) opts err where
      "opts = \<lparr>po_BatchID = BatchID h, po_TagID = tag, po_Pin = Pin h, po_Deferred = d\<rparr>"
      "snd r' = snd r @ [EvNewStamperPutter opts (Some err), EvWriteHeader (status resp)]"
      "fst r' = snd (newStamperPutter e opts (fst r))"
      "status resp = StatusUnprocessableEntity \<or> status resp = StatusNotFound
         \<or> status resp = StatusBadRequest"
  | (putter_created) opts st1 where
      "opts = \<lparr>po_BatchID = BatchID h, po_TagID = tag, po_Pin = Pin h, po_Deferred = d\<rparr>"
      "newStamperPutter e opts (fst r) = (None, st1)"
      "upload_with_putter e h tag reqBody (st1, snd r @ [EvNewStamperPutter opts None]) = (resp, r')"
proof -
  define opts where "opts = \<lparr>po_BatchID = BatchID h, po_TagID = tag, po_Pin = Pin h, po_Deferred = d\<rparr>"
  obtain perr st1 where np: "newStamperPutter e opts (fst r) = (perr, st1)"
    by (cases "newStamperPutter e opts (fst r)")
  show thesis
  proof (cases perr)
    case None
    with run np show thesis
      by (intro putter_created [of opts st1]) (auto simp: upload_with_tag_def opts_def)
  next
    case (Some err)
    with run np show thesis
      by (intro putter_failed [of opts err])
         (auto simp: upload_with_tag_def opts_def writer_defs Let_def split: if_splits)
  qed
qed

lemma bytesUploadHandler_stage_cases [consumes 1, case_names invalid session_failed started]:
  assumes run: "bytesUploadHandler e raw reqBody st = (resp, r')"
  obtains
    (invalid) response where
      "mapStructure e raw = Inl response"
      "resp = response ''invalid header params''"
      "r' = (st, [EvWriteHeader (status resp)])"
  | (session_failed) h err where
      "mapStructure e raw = Inr h"
      "defaultUploadMethod e (Deferred h) \<or> Pin h"
      "snd r' = [EvGetOrCreateSessionID (SwarmTag h) (Inl err), EvWriteHeader (status resp)]"
      "fst r' = snd (getOrCreateSessionID e (SwarmTag h) st)"
      "status resp = (if errors_Is err storage_ErrNotFound then StatusNotFound
                      else StatusInternalServerError)"
      "body resp = Message (if errors_Is err storage_ErrNotFound then ''tag not found''
                            else ''cannot get or create tag'')"
  | (started) h tag pre where
      "mapStructure e raw = Inr h"
      "if defaultUploadMethod e (Deferred h) \<or> Pin h
       then pre = [EvGetOrCreateSessionID (SwarmTag h) (Inr tag)]
       else pre = [] \<and> tag = 0"
      "upload_with_tag e h (defaultUploadMethod e (Deferred h)) tag reqBody
         (replay e reqBody pre st, pre) = (resp, r')"
proof (cases "mapStructure e raw")
  case (Inl response)
  with run show thesis
    by (intro invalid [of response]) (auto simp: bytesUploadHandler_def writer_defs Let_def)
next
  case (Inr h)
  show thesis
  proof (cases "defaultUploadMethod e (Deferred h) \<or> Pin h")
    case False
    with run Inr show thesis
      by (intro started [of h "[]" 0]) (auto simp: bytesUploadHandler_def replay_Nil)
  next
    case True
    obtain tres st1 where gs: "getOrCreateSessionID e (SwarmTag h) st = (tres, st1)"
      by (cases "getOrCreateSessionID e (SwarmTag h) st")
    show thesis
    proof (cases tres)
      case (Inl err)
      with run Inr True gs show thesis
        by (intro session_failed [of h err])
           (auto simp: bytesUploadHandler_def writer_defs Let_def split: if_splits)
    next
      case tag: (Inr tag)
      with run Inr True gs show thesis
        by (intro started [of h "[EvGetOrCreateSessionID (SwarmTag h) (Inr tag)]" tag])
           (auto simp: bytesUploadHandler_def replay_Nil replay_Cons split: if_splits)
    qed
  qed
qed

lemma upload_with_tag_frame:
  assumes "upload_with_tag e h d tag reqBody r = (resp, r')"
  shows "\<exists>new. snd r' = snd r @ new \<and> fst r' = replay e reqBody new (fst r)"
  using assms
proof (cases rule: upload_with_tag_cases)
  case (putter_failed opts err)
  then show ?thesis
    by (simp add: replay_Cons replay_Nil)
next
  case (putter_created opts st1)
  from upload_with_putter_frame [OF putter_created(3)] putter_created(2)
  show ?thesis
    by (auto simp: replay_append replay_Cons replay_Nil)
qed

lemma bytesUploadHandler_frame:
  assumes "bytesUploadHandler e raw reqBody st = (resp, st', tr)"
  shows "st' = replay e reqBody tr st"
  using assms
proof (cases rule: bytesUploadHandler_stage_cases)
  case (invalid response)
  then show ?thesis by (simp add: replay_Cons replay_Nil)
next
  case (session_failed h err)
  then show ?thesis by (simp add: replay_Cons replay_Nil)
next
  case (started h tag pre)
  from upload_with_tag_frame [OF started(3)] show ?thesis
    by (auto simp: replay_append)
qed

lemma bytesUploadHandler_cases [consumes 1, case_names invalid session_failed putter_failed
    pipeline_failed act_failed done_failed created]:
  assumes run: "bytesUploadHandler e raw reqBody st = (resp, st', tr)"
  obtains
    (invalid) response where
      "mapStructure e raw = Inl response"
      "resp = response ''invalid header params''"
      "st' = st"
      "tr = [EvWriteHeader (status resp)]"
  | (session_failed) h err where
      "mapStructure e raw = Inr h"
      "defaultUploadMethod e (Deferred h) \<or> Pin h"
      "tr = [EvGetOrCreateSessionID (SwarmTag h) (Inl err), EvWriteHeader (status resp)]"
      "status resp = (if errors_Is err storage_ErrNotFound then StatusNotFound
                      else StatusInternalServerError)"
      "body resp = Message (if errors_Is err storage_ErrNotFound then ''tag not found''
                            else ''cannot get or create tag'')"
  | (putter_failed) h tag pre opts err where
      "mapStructure e raw = Inr h"
      "if defaultUploadMethod e (Deferred h) \<or> Pin h
       then pre = [EvGetOrCreateSessionID (SwarmTag h) (Inr tag)]
       else pre = [] \<and> tag = 0"
      "opts = \<lparr>po_BatchID = BatchID h, po_TagID = tag, po_Pin = Pin h,
                po_Deferred = defaultUploadMethod e (Deferred h)\<rparr>"
      "tr = pre @ [EvNewStamperPutter opts (Some err), EvWriteHeader (status resp)]"
      "status resp = StatusUnprocessableEntity \<or> status resp = StatusNotFound
         \<or> status resp = StatusBadRequest"
  | (pipeline_failed) h tag pre opts err cerr where
      "mapStructure e raw = Inr h"
      "if defaultUploadMethod e (Deferred h) \<or> Pin h
       then pre = [EvGetOrCreateSessionID (SwarmTag h) (Inr tag)]
       else pre = [] \<and> tag = 0"
      "opts = \<lparr>po_BatchID = BatchID h, po_TagID = tag, po_Pin = Pin h,
                po_Deferred = defaultUploadMethod e (Deferred h)\<rparr>"
      "tr = pre @ [EvNewStamperPutter opts None,
                   EvPipeline (Encrypt h) (RLevel h) (Inl err), EvCleanup cerr,
                   EvWriteHeader (status resp)]"
      "status resp = (if errors_Is err postage_ErrBucketFull then StatusPaymentRequired
                      else StatusInternalServerError)"
      "body resp = Message (if errors_Is err postage_ErrBucketFull then ''batch is overissued''
                            else ''split write all failed'')"
  | (act_failed) h tag pre opts reference err where
      "mapStructure e raw = Inr h"
      "if defaultUploadMethod e (Deferred h) \<or> Pin h
       then pre = [EvGetOrCreateSessionID (SwarmTag h) (Inr tag)]
       else pre = [] \<and> tag = 0"
      "opts = \<lparr>po_BatchID = BatchID h, po_TagID = tag, po_Pin = Pin h,
                po_Deferred = defaultUploadMethod e (Deferred h)\<rparr>"
      "Act h"
      "tr = pre @ [EvNewStamperPutter opts None,
                   EvPipeline (Encrypt h) (RLevel h) (Inr reference),
                   EvActEncryption reference (HistoryAddress h) (Inl err),
                   EvWriteHeader (status resp)]"
      "status resp = StatusNotFound \<or> status resp = StatusBadRequest
         \<or> status resp = StatusInternalServerError"
  | (done_failed) h tag pre opts reference acts err cerr where
      "mapStructure e raw = Inr h"
      "if defaultUploadMethod e (Deferred h) \<or> Pin h
       then pre = [EvGetOrCreateSessionID (SwarmTag h) (Inr tag)]
       else pre = [] \<and> tag = 0"
      "opts = \<lparr>po_BatchID = BatchID h, po_TagID = tag, po_Pin = Pin h,
                po_Deferred = defaultUploadMethod e (Deferred h)\<rparr>"
      "if Act h
       then \<exists>enc hist. acts = [EvActEncryption reference (HistoryAddress h) (Inr (enc, hist))]
       else acts = []"
      "tr = pre @ EvNewStamperPutter opts None
                # EvPipeline (Encrypt h) (RLevel h) (Inr reference) # acts
                @ [EvDone reference (Some err), EvCleanup cerr, EvWriteHeader (status resp)]"
      "status resp = StatusInternalServerError"
  | (created) h tag pre opts reference enc hist acts where
      "mapStructure e raw = Inr h"
      "if defaultUploadMethod e (Deferred h) \<or> Pin h
       then pre = [EvGetOrCreateSessionID (SwarmTag h) (Inr tag)]
       else pre = [] \<and> tag = 0"
      "opts = \<lparr>po_BatchID = BatchID h, po_TagID = tag, po_Pin = Pin h,
                po_Deferred = defaultUploadMethod e (Deferred h)\<rparr>"
      "if Act h then acts = [EvActEncryption reference (HistoryAddress h) (Inr (enc, hist))]
       else acts = [] \<and> enc = reference \<and> hist = ZeroAddress"
      "tr = pre @ EvNewStamperPutter opts None
                # EvPipeline (Encrypt h) (RLevel h) (Inr reference) # acts
                @ [EvDone reference None, EvWriteHeader (status resp)]"
      "status resp = StatusCreated"
      "body resp = bytesPostResponse enc"
      "header resp SwarmTagHeader = (if tag \<noteq> 0 then [HTag tag] else [])"
      "header resp SwarmActHistoryAddressHeader = (if Act h then [HAddr hist] else [])"
  using run
proof (cases rule: bytesUploadHandler_stage_cases)
  case (invalid response)
  then show thesis
    by (intro that(1) [where response=response]) auto
next
  case (session_failed h err)
  then show thesis
    by (intro that(2) [where h=h and err=err]) auto
next
  case st: (started h tag pre)
  from st(3) show thesis
  proof (cases rule: upload_with_tag_cases)
    case (putter_failed opts err)
    with st(1,2) show thesis
      by (intro that(3) [where h=h and pre=pre and tag=tag and opts=opts and err=err]) auto
  next
    case pc: (putter_created opts st1)
    from pc(3) show thesis
    proof (cases rule: upload_with_putter_cases)
      case (pipeline_failed err cerr)
      with st(1,2) pc(1) show thesis
        by (intro that(4) [where h=h and pre=pre and tag=tag and opts=opts and err=err and cerr=cerr]) auto
    next
      case (act_failed reference err)
      with st(1,2) pc(1) show thesis
        by (intro that(5) [where h=h and pre=pre and tag=tag and opts=opts and reference=reference and err=err]) auto
    next
      case (done_failed reference acts err cerr)
      with st(1,2) pc(1) show thesis
        by (intro that(6) [where h=h and pre=pre and tag=tag and opts=opts and reference=reference and acts=acts and err=err and cerr=cerr]) auto
    next
      case (created reference enc hist acts)
      with st(1,2) pc(1) show thesis
        by (intro that(7) [where h=h and pre=pre and tag=tag and opts=opts and acts=acts and reference=reference and enc=enc and hist=hist]) auto
    qed
  qed
qed

text \<open>Concrete runs are evaluated by unfolding the handler and the scripted service.\<close>

lemmas run_defs = bytesUploadHandler_def upload_with_tag_def upload_with_putter_def writer_defs
  scripted_env_def world0_def plain_headers_def ok_script_def Let_def status_defs
  SessionTracker_GetOrCreate_def Putter_Done_def Putter_Cleanup_def fresh_id_def new_session_def
  ZeroAddress_def

section \<open>Claims about the upload\<close>




text \<open>
  C9. When the mapping and validation of the request headers fails, the handler
  answers with the response of the validation and returns: the service state is the
  one it started from (no session created, no unit stored) and the only event of the
  run is the status written to the client, so neither the pipeline nor Cleanup ran.
\<close>

theorem invalid_headers_abort:
  assumes "mapStructure e raw = Inl response"
  shows "bytesUploadHandler e raw reqBody st =
           (response ''invalid header params'', st,
            [EvWriteHeader (status (response ''invalid header params''))])"
  using assms by (simp add: bytesUploadHandler_def WriteHeader_def Let_def)

theorem invalid_headers_abort_witness:
  "mapStructure (scripted_env ok_script) (plain_headers\<lparr>BatchID := []\<rparr>)
     = Inl (\<lambda>msg. \<lparr>status = StatusBadRequest, header = no_headers, body = Message msg\<rparr>)
   \<and> bytesUploadHandler (scripted_env ok_script) (plain_headers\<lparr>BatchID := []\<rparr>) [] world0 =
       (\<lparr>status = StatusBadRequest, header = no_headers, body = Message ''invalid header params''\<rparr>,
        world0, [EvWriteHeader StatusBadRequest])"
proof -
  have ms: "mapStructure (scripted_env ok_script) (plain_headers\<lparr>BatchID := []\<rparr>)
     = Inl (\<lambda>msg. \<lparr>status = StatusBadRequest, header = no_headers, body = Message msg\<rparr>)"
    by (simp add: scripted_env_def plain_headers_def)
  from invalid_headers_abort [OF ms, of "[]" world0] ms show ?thesis
    by simp
qed

lemma session_prefix:
  assumes "if D then pre = [EvGetOrCreateSessionID i (Inr tag)] else pre = [] \<and> tag = 0"
  shows "list_ex is_session_call pre = D" and "\<not> D \<Longrightarrow> pre = [] \<and> tag = 0"
    and "\<not> list_ex is_Done pre" and "\<not> list_ex is_Cleanup pre"
  using assms by (cases D; simp)+

lemma act_events:
  assumes "if A then \<exists>enc hist. acts = [EvActEncryption reference ha (Inr (enc, hist))] else acts = []"
  shows "\<not> list_ex is_session_call acts" and "\<not> list_ex is_Done acts"
    and "\<not> list_ex is_Cleanup acts"
    and "EvActEncryption r' ha' (Inl err) \<notin> set acts"
    and "EvNewStamperPutter opts res \<notin> set acts"
    and "EvPipeline enc' rl res' \<notin> set acts"
  using assms by (cases A; auto)+

text \<open>
  C10. On a request whose headers are accepted, the session tracker is called exactly
  when the upload is deferred or pinned. For an upload that is neither, the first call
  of the run is the creation of the putter with tag 0 and a successful response has
  no Swarm-Tag header. In a successful response the Swarm-Tag header is present
  exactly when the tag given to the putter is not 0, and then it carries that tag.
\<close>

theorem session_only_when_deferred_or_pinned:
  assumes "bytesUploadHandler e raw reqBody st = (resp, st', tr)"
    and "mapStructure e raw = Inr h"
  shows "list_ex is_session_call tr = (defaultUploadMethod e (Deferred h) \<or> Pin h)
    \<and> (\<not> (defaultUploadMethod e (Deferred h) \<or> Pin h) \<longrightarrow>
          (\<exists>res rest. tr = EvNewStamperPutter
                           \<lparr>po_BatchID = BatchID h, po_TagID = 0, po_Pin = False,
                            po_Deferred = False\<rparr> res # rest)
          \<and> (status resp = StatusCreated \<longrightarrow> header resp SwarmTagHeader = []))
    \<and> (status resp = StatusCreated \<longrightarrow>
          (\<exists>opts. EvNewStamperPutter opts None \<in> set tr
             \<and> header resp SwarmTagHeader
                 = (if po_TagID opts \<noteq> 0 then [HTag (po_TagID opts)] else [])))"
  using assms(1)
proof (cases rule: bytesUploadHandler_cases)
  case (invalid response)
  with assms(2) show ?thesis by simp
next
  case (session_failed h' err)
  with assms(2) have "h' = h" by simp
  with session_failed show ?thesis by (simp add: status_defs)
next
  case c: (putter_failed h' tag pre opts err)
  with assms(2) have h: "h' = h" by simp
  note p = session_prefix [OF c(2)]
  from c(5) have ns: "status resp \<noteq> StatusCreated" by (auto simp: status_defs)
  from p c(3,4) h ns show ?thesis by (cases "defaultUploadMethod e (Deferred h) \<or> Pin h") simp_all
next
  case c: (pipeline_failed h' tag pre opts err cerr)
  with assms(2) have h: "h' = h" by simp
  note p = session_prefix [OF c(2)]
  from c(5) have ns: "status resp \<noteq> StatusCreated" by (auto simp: status_defs)
  from p c(3,4) h ns show ?thesis by (cases "defaultUploadMethod e (Deferred h) \<or> Pin h") simp_all
next
  case c: (act_failed h' tag pre opts reference err)
  with assms(2) have h: "h' = h" by simp
  note p = session_prefix [OF c(2)]
  from c(6) have ns: "status resp \<noteq> StatusCreated" by (auto simp: status_defs)
  from p c(3,5) h ns show ?thesis by (cases "defaultUploadMethod e (Deferred h) \<or> Pin h") simp_all
next
  case c: (done_failed h' tag pre opts reference acts err cerr)
  with assms(2) have h: "h' = h" by simp
  note p = session_prefix [OF c(2)]
  note a = act_events [OF c(4)]
  from c(6) have ns: "status resp \<noteq> StatusCreated" by (auto simp: status_defs)
  from p a(1) c(3,5) h ns show ?thesis by (cases "defaultUploadMethod e (Deferred h) \<or> Pin h") simp_all
next
  case c: (created h' tag pre opts reference enc hist acts)
  with assms(2) have h: "h' = h" by simp
  note p = session_prefix [OF c(2)]
  from c(4) have a: "\<not> list_ex is_session_call acts" by (cases "Act h'") simp_all
  from c(3) have t: "po_TagID opts = tag" by simp
  from c(5) have m: "EvNewStamperPutter opts None \<in> set tr" by simp
  have 3: "\<exists>opts. EvNewStamperPutter opts None \<in> set tr
             \<and> header resp SwarmTagHeader
                 = (if po_TagID opts \<noteq> 0 then [HTag (po_TagID opts)] else [])"
    using m t c(8) by (intro exI [of _ opts]) simp
  from p a c(3,5,8) h 3 show ?thesis by (cases "defaultUploadMethod e (Deferred h) \<or> Pin h") simp_all
qed

lemma run_triple: "x = (fst x, fst (snd x), snd (snd x))"
  by simp

lemma plain_run:
  "bytesUploadHandler (scripted_env ok_script) plain_headers [] world0 =
   (\<lparr>status = 201,
      header = Header_Set AccessControlExposeHeaders (HStr SwarmTagHeader) no_headers,
      body = bytesPostResponse [1]\<rparr>,
    \<lparr>w_sessions = [],
     w_putter = \<lparr>phase = Committed, units = [[1]], pin_held = False, session_failed = False\<rparr>\<rparr>,
    [EvNewStamperPutter \<lparr>po_BatchID = [1], po_TagID = 0, po_Pin = False, po_Deferred = False\<rparr> None,
     EvPipeline False 0 (Inr [1]), EvDone [1] None, EvWriteHeader 201])"
  by (simp add: run_defs)

lemma act_run:
  "bytesUploadHandler (scripted_env ok_script) (plain_headers\<lparr>Act := True\<rparr>) [] world0 =
   (\<lparr>status = 201,
      header = Header_Add AccessControlExposeHeaders (HStr SwarmActHistoryAddressHeader)
                 (Header_Set SwarmActHistoryAddressHeader (HAddr [3])
                   (Header_Set AccessControlExposeHeaders (HStr SwarmTagHeader) no_headers)),
      body = bytesPostResponse [2]\<rparr>,
    \<lparr>w_sessions = [],
     w_putter = \<lparr>phase = Committed, units = [[1]], pin_held = False, session_failed = False\<rparr>\<rparr>,
    [EvNewStamperPutter \<lparr>po_BatchID = [1], po_TagID = 0, po_Pin = False, po_Deferred = False\<rparr> None,
     EvPipeline False 0 (Inr [1]), EvActEncryption [1] [] (Inr ([2], [3])),
     EvDone [1] None, EvWriteHeader 201])"
  by (simp add: run_defs)

lemma act_failed_run:
  "bytesUploadHandler
     (scripted_env (ok_script\<lparr>sc_act := Inl (Sentinel accesscontrol_ErrNotFound)\<rparr>))
     (plain_headers\<lparr>Pin := True, Act := True\<rparr>) [] world0 =
   (\<lparr>status = 404, header = no_headers, body = Message ''act or history entry not found''\<rparr>,
    \<lparr>w_sessions = [\<lparr>sid = 1, split = 0, stored = 0, sent = 0, synced = 0\<rparr>],
     w_putter = \<lparr>phase = Staging, units = [[1]], pin_held = True, session_failed = False\<rparr>\<rparr>,
    [EvGetOrCreateSessionID 0 (Inr 1),
     EvNewStamperPutter \<lparr>po_BatchID = [1], po_TagID = 1, po_Pin = True, po_Deferred = False\<rparr> None,
     EvPipeline False 0 (Inr [1]),
     EvActEncryption [1] [] (Inl (Sentinel accesscontrol_ErrNotFound)),
     EvWriteHeader 404])"
  by (simp add: run_defs)

theorem session_only_when_deferred_or_pinned_witness:
  "mapStructure (scripted_env ok_script) plain_headers = Inr plain_headers
   \<and> \<not> (defaultUploadMethod (scripted_env ok_script) (Deferred plain_headers) \<or> Pin plain_headers)
   \<and> \<not> list_ex is_session_call
          (snd (snd (bytesUploadHandler (scripted_env ok_script) plain_headers [] world0)))
   \<and> status (fst (bytesUploadHandler (scripted_env ok_script) plain_headers [] world0))
        = StatusCreated
   \<and> header (fst (bytesUploadHandler (scripted_env ok_script) plain_headers [] world0))
        SwarmTagHeader = []"
proof -
  have ms: "mapStructure (scripted_env ok_script) plain_headers = Inr plain_headers"
    by (simp add: scripted_env_def plain_headers_def)
  have nd: "\<not> (defaultUploadMethod (scripted_env ok_script) (Deferred plain_headers)
              \<or> Pin plain_headers)"
    by (simp add: scripted_env_def plain_headers_def)
  have ok: "status (fst (bytesUploadHandler (scripted_env ok_script) plain_headers [] world0))
        = StatusCreated"
    by (simp add: plain_run status_defs)
  from session_only_when_deferred_or_pinned [OF run_triple ms] nd ok ms show ?thesis
    by simp
qed

text \<open>
  C3. When the access-control step of an upload fails, the run holds no call of Done
  and no call of Cleanup, the response is an error status, and the failed call is
  the last call of the run: after it the handler only writes the status. The final
  state is the state the access-control step returned, so nothing the pipeline stored
  is deleted by the handler and the upload is not marked complete.
\<close>

theorem act_failure_leaves_upload_open:
  assumes "bytesUploadHandler e raw reqBody st = (resp, st', tr)"
    and "EvActEncryption reference hist (Inl err) \<in> set tr"
  shows "\<not> list_ex is_Done tr \<and> \<not> list_ex is_Cleanup tr
    \<and> StatusBadRequest \<le> status resp
    \<and> (\<exists>pre. tr = pre @ [EvActEncryption reference hist (Inl err),
                           EvWriteHeader (status resp)]
           \<and> st' = snd (actEncryptionHandler e reference hist (replay e reqBody pre st)))"
  using assms(1)
proof (cases rule: bytesUploadHandler_cases)
  case (invalid response)
  with assms(2) show ?thesis by simp
next
  case (session_failed h err')
  with assms(2) show ?thesis by simp
next
  case c: (putter_failed h tag pre opts err')
  from c(2) c(4) assms(2) show ?thesis
    by (cases "defaultUploadMethod e (Deferred h) \<or> Pin h") simp_all
next
  case c: (pipeline_failed h tag pre opts err' cerr)
  from c(2) c(4) assms(2) show ?thesis
    by (cases "defaultUploadMethod e (Deferred h) \<or> Pin h") simp_all
next
  case c: (done_failed h tag pre opts reference' acts err' cerr)
  note a = act_events(4) [OF c(4), of reference hist err]
  from c(2) c(5) assms(2) a show ?thesis
    by (cases "defaultUploadMethod e (Deferred h) \<or> Pin h") simp_all
next
  case c: (created h tag pre opts reference' enc hist' acts)
  from c(4) have a: "EvActEncryption reference hist (Inl err) \<notin> set acts"
    by (cases "Act h") simp_all
  from c(2) c(5) assms(2) a show ?thesis
    by (cases "defaultUploadMethod e (Deferred h) \<or> Pin h") simp_all
next
  case c: (act_failed h tag pre opts reference' err')
  note p = session_prefix [OF c(2)]
  from p(1) have np: "EvActEncryption reference hist (Inl err) \<notin> set pre"
    using c(2) by (cases "defaultUploadMethod e (Deferred h) \<or> Pin h") simp_all
  with c(5) assms(2) have eq: "reference' = reference" "HistoryAddress h = hist" "err' = err"
    by simp_all
  define pre' where "pre' = pre @ [EvNewStamperPutter opts None,
                   EvPipeline (Encrypt h) (RLevel h) (Inr reference)]"
  from c(5) eq have tr: "tr = pre' @ [EvActEncryption reference hist (Inl err),
                           EvWriteHeader (status resp)]"
    by (simp add: pre'_def)
  from bytesUploadHandler_frame [OF assms(1)] tr
  have st: "st' = snd (actEncryptionHandler e reference hist (replay e reqBody pre' st))"
    by (simp add: replay_append replay_Cons replay_Nil)
  from p(3,4) have nd: "\<not> list_ex is_Done tr" "\<not> list_ex is_Cleanup tr"
    by (simp_all add: tr pre'_def)
  from c(6) have "StatusBadRequest \<le> status resp"
    by (auto simp: status_defs)
  with nd tr st show ?thesis
    by blast
qed

theorem act_failure_leaves_upload_open_witness:
  "EvActEncryption [1] [] (Inl (Sentinel accesscontrol_ErrNotFound))
     \<in> set (snd (snd (bytesUploadHandler
          (scripted_env (ok_script\<lparr>sc_act := Inl (Sentinel accesscontrol_ErrNotFound)\<rparr>))
          (plain_headers\<lparr>Pin := True, Act := True\<rparr>) [] world0)))
   \<and> \<not> list_ex is_Done (snd (snd (bytesUploadHandler
          (scripted_env (ok_script\<lparr>sc_act := Inl (Sentinel accesscontrol_ErrNotFound)\<rparr>))
          (plain_headers\<lparr>Pin := True, Act := True\<rparr>) [] world0)))
   \<and> \<not> list_ex is_Cleanup (snd (snd (bytesUploadHandler
          (scripted_env (ok_script\<lparr>sc_act := Inl (Sentinel accesscontrol_ErrNotFound)\<rparr>))
          (plain_headers\<lparr>Pin := True, Act := True\<rparr>) [] world0)))
   \<and> status (fst (bytesUploadHandler
          (scripted_env (ok_script\<lparr>sc_act := Inl (Sentinel accesscontrol_ErrNotFound)\<rparr>))
          (plain_headers\<lparr>Pin := True, Act := True\<rparr>) [] world0)) = StatusNotFound
   \<and> w_putter (fst (snd (bytesUploadHandler
          (scripted_env (ok_script\<lparr>sc_act := Inl (Sentinel accesscontrol_ErrNotFound)\<rparr>))
          (plain_headers\<lparr>Pin := True, Act := True\<rparr>) [] world0)))
       = \<lparr>phase = Staging, units = [[1]], pin_held = True, session_failed = False\<rparr>"
proof -
  have mem: "EvActEncryption [1] [] (Inl (Sentinel accesscontrol_ErrNotFound))
     \<in> set (snd (snd (bytesUploadHandler
          (scripted_env (ok_script\<lparr>sc_act := Inl (Sentinel accesscontrol_ErrNotFound)\<rparr>))
          (plain_headers\<lparr>Pin := True, Act := True\<rparr>) [] world0)))"
    by (simp add: act_failed_run)
  note r = act_failure_leaves_upload_open [OF run_triple mem]
  from r have nd: "\<not> list_ex is_Done (snd (snd (bytesUploadHandler
          (scripted_env (ok_script\<lparr>sc_act := Inl (Sentinel accesscontrol_ErrNotFound)\<rparr>))
          (plain_headers\<lparr>Pin := True, Act := True\<rparr>) [] world0)))"
    by (rule conjunct1)
  from r have nc: "\<not> list_ex is_Cleanup (snd (snd (bytesUploadHandler
          (scripted_env (ok_script\<lparr>sc_act := Inl (Sentinel accesscontrol_ErrNotFound)\<rparr>))
          (plain_headers\<lparr>Pin := True, Act := True\<rparr>) [] world0)))"
    by (rule conjunct2 [THEN conjunct1])
  have rest: "status (fst (bytesUploadHandler
          (scripted_env (ok_script\<lparr>sc_act := Inl (Sentinel accesscontrol_ErrNotFound)\<rparr>))
          (plain_headers\<lparr>Pin := True, Act := True\<rparr>) [] world0)) = StatusNotFound
   \<and> w_putter (fst (snd (bytesUploadHandler
          (scripted_env (ok_script\<lparr>sc_act := Inl (Sentinel accesscontrol_ErrNotFound)\<rparr>))
          (plain_headers\<lparr>Pin := True, Act := True\<rparr>) [] world0)))
       = \<lparr>phase = Staging, units = [[1]], pin_held = True, session_failed = False\<rparr>"
    by (simp add: act_failed_run status_defs)
  from mem nd nc rest show ?thesis
    by (intro conjI) (rule mem nd nc rest [THEN conjunct1] rest [THEN conjunct2])+
qed

text \<open>
  C1, amended. In a successful upload the pipeline returned a root reference and Done
  was called with it. Without access control the reference of the response is that
  plain root reference and there is no history header. With access control the
  reference of the response is the encrypted reference that the access-control step
  returned, and the Swarm-Act-History-Address header carries the history reference it
  returned.
\<close>

theorem response_reference:
  assumes "bytesUploadHandler e raw reqBody st = (resp, st', tr)"
    and "mapStructure e raw = Inr h"
    and "status resp = StatusCreated"
  shows "\<exists>reference.
           EvPipeline (Encrypt h) (RLevel h) (Inr reference) \<in> set tr
           \<and> EvDone reference None \<in> set tr
           \<and> (if Act h
               then \<exists>enc hist.
                      EvActEncryption reference (HistoryAddress h) (Inr (enc, hist)) \<in> set tr
                      \<and> body resp = bytesPostResponse enc
                      \<and> header resp SwarmActHistoryAddressHeader = [HAddr hist]
               else body resp = bytesPostResponse reference
                    \<and> header resp SwarmActHistoryAddressHeader = [])"
  using assms(1)
proof (cases rule: bytesUploadHandler_cases)
  case (invalid response)
  with assms(2) show ?thesis by simp
next
  case (session_failed h' err)
  with assms(3) show ?thesis by (simp add: status_defs split: if_splits)
next
  case (putter_failed h' tag pre opts err)
  with assms(3) show ?thesis by (auto simp: status_defs)
next
  case (pipeline_failed h' tag pre opts err cerr)
  with assms(3) show ?thesis by (simp add: status_defs split: if_splits)
next
  case (act_failed h' tag pre opts reference err)
  with assms(3) show ?thesis by (auto simp: status_defs)
next
  case (done_failed h' tag pre opts reference acts err cerr)
  with assms(3) show ?thesis by (simp add: status_defs)
next
  case c: (created h' tag pre opts reference enc hist acts)
  with assms(2) have h: "h' = h" by simp
  from c(5) h have 1: "EvPipeline (Encrypt h) (RLevel h) (Inr reference) \<in> set tr"
    and 2: "EvDone reference None \<in> set tr"
    by simp_all
  show ?thesis
  proof (cases "Act h")
    case True
    with c(4,5) h have "EvActEncryption reference (HistoryAddress h) (Inr (enc, hist)) \<in> set tr"
      by simp
    with True c(7,9) h 1 2 show ?thesis
      by (intro exI [of _ reference]) auto
  next
    case False
    with c(4,7,9) h 1 2 show ?thesis
      by (intro exI [of _ reference]) auto
  qed
qed

theorem response_reference_witness:
  "mapStructure (scripted_env ok_script) (plain_headers\<lparr>Act := True\<rparr>)
     = Inr (plain_headers\<lparr>Act := True\<rparr>)
   \<and> status (fst (bytesUploadHandler (scripted_env ok_script)
                    (plain_headers\<lparr>Act := True\<rparr>) [] world0)) = StatusCreated
   \<and> (\<exists>reference.
         EvPipeline False 0 (Inr reference)
           \<in> set (snd (snd (bytesUploadHandler (scripted_env ok_script)
                              (plain_headers\<lparr>Act := True\<rparr>) [] world0)))
         \<and> (\<exists>enc hist.
               EvActEncryption reference [] (Inr (enc, hist))
                 \<in> set (snd (snd (bytesUploadHandler (scripted_env ok_script)
                                    (plain_headers\<lparr>Act := True\<rparr>) [] world0)))
               \<and> body (fst (bytesUploadHandler (scripted_env ok_script)
                              (plain_headers\<lparr>Act := True\<rparr>) [] world0))
                   = bytesPostResponse enc
               \<and> header (fst (bytesUploadHandler (scripted_env ok_script)
                                (plain_headers\<lparr>Act := True\<rparr>) [] world0))
                   SwarmActHistoryAddressHeader = [HAddr hist]))
   \<and> mapStructure (scripted_env ok_script) plain_headers = Inr plain_headers
   \<and> status (fst (bytesUploadHandler (scripted_env ok_script) plain_headers [] world0))
       = StatusCreated
   \<and> (\<exists>reference.
         EvPipeline False 0 (Inr reference)
           \<in> set (snd (snd (bytesUploadHandler (scripted_env ok_script) plain_headers []
                              world0)))
         \<and> body (fst (bytesUploadHandler (scripted_env ok_script) plain_headers [] world0))
             = bytesPostResponse reference
         \<and> header (fst (bytesUploadHandler (scripted_env ok_script) plain_headers [] world0))
             SwarmActHistoryAddressHeader = [])"
proof -
  have ms: "mapStructure (scripted_env ok_script) (plain_headers\<lparr>Act := True\<rparr>)
     = Inr (plain_headers\<lparr>Act := True\<rparr>)"
    by (simp add: scripted_env_def plain_headers_def)
  have ok: "status (fst (bytesUploadHandler (scripted_env ok_script)
                    (plain_headers\<lparr>Act := True\<rparr>) [] world0)) = StatusCreated"
    by (simp add: act_run status_defs)
  from response_reference [OF run_triple ms ok]
  have a: "\<exists>reference.
         EvPipeline False 0 (Inr reference)
           \<in> set (snd (snd (bytesUploadHandler (scripted_env ok_script)
                              (plain_headers\<lparr>Act := True\<rparr>) [] world0)))
         \<and> (\<exists>enc hist.
               EvActEncryption reference [] (Inr (enc, hist))
                 \<in> set (snd (snd (bytesUploadHandler (scripted_env ok_script)
                                    (plain_headers\<lparr>Act := True\<rparr>) [] world0)))
               \<and> body (fst (bytesUploadHandler (scripted_env ok_script)
                              (plain_headers\<lparr>Act := True\<rparr>) [] world0))
                   = bytesPostResponse enc
               \<and> header (fst (bytesUploadHandler (scripted_env ok_script)
                                (plain_headers\<lparr>Act := True\<rparr>) [] world0))
                   SwarmActHistoryAddressHeader = [HAddr hist])"
    by (simp add: plain_headers_def) blast
  have ms2: "mapStructure (scripted_env ok_script) plain_headers = Inr plain_headers"
    by (simp add: scripted_env_def plain_headers_def)
  have ok2: "status (fst (bytesUploadHandler (scripted_env ok_script) plain_headers [] world0))
       = StatusCreated"
    by (simp add: plain_run status_defs)
  from response_reference [OF run_triple ms2 ok2]
  have b: "\<exists>reference.
         EvPipeline False 0 (Inr reference)
           \<in> set (snd (snd (bytesUploadHandler (scripted_env ok_script) plain_headers []
                              world0)))
         \<and> body (fst (bytesUploadHandler (scripted_env ok_script) plain_headers [] world0))
             = bytesPostResponse reference
         \<and> header (fst (bytesUploadHandler (scripted_env ok_script) plain_headers [] world0))
             SwarmActHistoryAddressHeader = []"
    by (simp add: plain_headers_def) blast
  show ?thesis
    by (intro conjI) (rule ms ok a ms2 ok2 b)+
qed

text \<open>
  C1 as stated fails: with access control, an upload whose pipeline returns the root
  reference \<open>[1]\<close> and whose access-control step returns the encrypted reference
  \<open>[2]\<close> succeeds with \<open>[2]\<close> in the response, not the plain reference.
\<close>

theorem response_reference_counterexample:
  "status (fst (bytesUploadHandler (scripted_env ok_script)
                  (plain_headers\<lparr>Act := True\<rparr>) [] world0)) = StatusCreated
   \<and> EvPipeline False 0 (Inr [1])
        \<in> set (snd (snd (bytesUploadHandler (scripted_env ok_script)
                           (plain_headers\<lparr>Act := True\<rparr>) [] world0)))
   \<and> body (fst (bytesUploadHandler (scripted_env ok_script)
                  (plain_headers\<lparr>Act := True\<rparr>) [] world0)) = bytesPostResponse [2]
   \<and> body (fst (bytesUploadHandler (scripted_env ok_script)
                  (plain_headers\<lparr>Act := True\<rparr>) [] world0)) \<noteq> bytesPostResponse [1]"
  by (simp add: act_run status_defs)

text \<open>
  C2. A pinned upload with access control whose access-control step fails after the
  pipeline stored the root: the handler writes 404 to the plain writer, and the run
  holds no call of Cleanup. The putter is left staging with its pin held.
\<close>

theorem act_failure_skips_cleanup:
  "bytesUploadHandler
     (scripted_env (ok_script\<lparr>sc_act := Inl (Sentinel accesscontrol_ErrNotFound)\<rparr>))
     (plain_headers\<lparr>Pin := True, Act := True\<rparr>) [] world0 =
   (\<lparr>status = StatusNotFound, header = no_headers,
      body = Message ''act or history entry not found''\<rparr>,
    \<lparr>w_sessions = [new_session 1],
     w_putter = \<lparr>phase = Staging, units = [[1]], pin_held = True, session_failed = False\<rparr>\<rparr>,
    [EvGetOrCreateSessionID 0 (Inr 1),
     EvNewStamperPutter \<lparr>po_BatchID = [1], po_TagID = 1, po_Pin = True, po_Deferred = False\<rparr> None,
     EvPipeline False 0 (Inr [1]),
     EvActEncryption [1] [] (Inl (Sentinel accesscontrol_ErrNotFound)),
     EvWriteHeader StatusNotFound])
   \<and> \<not> list_ex is_Cleanup (snd (snd (bytesUploadHandler
          (scripted_env (ok_script\<lparr>sc_act := Inl (Sentinel accesscontrol_ErrNotFound)\<rparr>))
          (plain_headers\<lparr>Pin := True, Act := True\<rparr>) [] world0)))"
  by (simp add: act_failed_run status_defs new_session_def)

text \<open>
  The other two stages do what C2 says: when the pipeline or Done fails, the call
  of Cleanup comes right before the error status is written.
\<close>

lemma cleanup_precedes_error:
  assumes "bytesUploadHandler e raw reqBody st = (resp, st', tr)"
    and "EvPipeline enc rl (Inl err) \<in> set tr \<or> EvDone root (Some err) \<in> set tr"
  shows "StatusBadRequest \<le> status resp
    \<and> (\<exists>pre cerr. tr = pre @ [EvCleanup cerr, EvWriteHeader (status resp)])"
  using assms(1)
proof (cases rule: bytesUploadHandler_cases)
  case (invalid response)
  with assms(2) show ?thesis by simp
next
  case (session_failed h err')
  with assms(2) show ?thesis by simp
next
  case c: (putter_failed h tag pre opts err')
  from c(2) c(4) assms(2) show ?thesis
    by (cases "defaultUploadMethod e (Deferred h) \<or> Pin h") simp_all
next
  case c: (pipeline_failed h tag pre opts err' cerr)
  from c(4) have "tr = (pre @ [EvNewStamperPutter opts None,
                   EvPipeline (Encrypt h) (RLevel h) (Inl err')])
                   @ [EvCleanup cerr, EvWriteHeader (status resp)]"
    by simp
  moreover from c(5) have "StatusBadRequest \<le> status resp"
    by (simp add: status_defs)
  ultimately show ?thesis by blast
next
  case c: (act_failed h tag pre opts reference err')
  from c(2) c(5) assms(2) show ?thesis
    by (cases "defaultUploadMethod e (Deferred h) \<or> Pin h") simp_all
next
  case c: (done_failed h tag pre opts reference acts err' cerr)
  from c(5) have "tr = (pre @ EvNewStamperPutter opts None
                # EvPipeline (Encrypt h) (RLevel h) (Inr reference) # acts
                @ [EvDone reference (Some err')])
                @ [EvCleanup cerr, EvWriteHeader (status resp)]"
    by simp
  moreover from c(6) have "StatusBadRequest \<le> status resp"
    by (simp add: status_defs)
  ultimately show ?thesis by blast
next
  case c: (created h tag pre opts reference eref hist acts)
  from c(4) have "EvPipeline enc rl (Inl err) \<notin> set acts" "EvDone root (Some err) \<notin> set acts"
    by (cases "Act h"; simp)+
  with c(2) c(5) assms(2) show ?thesis
    by (cases "defaultUploadMethod e (Deferred h) \<or> Pin h") simp_all
qed

section \<open>Claims about the length-only query and the download\<close>

text \<open>Below \<open>2 ^ 63\<close> the signed reading of a 64-bit word is its unsigned value.\<close>

lemma sint_below:
  fixes w :: "64 word"
  assumes "w < 2 ^ 63"
  shows "sint w = uint w"
proof -
  from assms have "uint w < 2 ^ 63"
    by (simp add: word_less_def)
  moreover have "- (2 ^ 63) \<le> uint w"
    by (rule order_trans [of _ 0]) simp_all
  ultimately show ?thesis
    by (simp add: sint_uint signed_take_bit_int_eq_self)
qed

text \<open>The slice decoded on line 224 has its 8 bytes: the read never goes out of range.\<close>

lemma valid_span_prefix:
  assumes "cac_Valid e ch"
  shows "length (take SpanSize (ch_data ch)) = 8"
  using assms by (simp add: cac_Valid_def SpanSize_def)

text \<open>Concrete queries are evaluated by unfolding the handler and the chunks.\<close>

lemmas head_defs = bytesHeadHandler_def demo_head_env_def demo_store_def Store_Get_def
  cac_Valid_def toy_hash_def SpanSize_def IsZero_def ZeroAddress_def Let_def
  mib_root_def small_leaf_def bare_unit_def huge_span_def header_defs status_defs

text \<open>
  The single leaf of a 50-byte object is a valid chunk with span 50; the bare unit of
  50 bytes is not valid and is measured by its data.
\<close>

lemma small_leaf_reports_50:
  "cac_Valid (demo_head_env (Store_Get demo_store)) small_leaf
   \<and> header (bytesHeadHandler (demo_head_env (Store_Get demo_store)) (ch_address small_leaf))
        ContentLengthHeader = [HInt 50]"
  by (simp add: head_defs)

lemma bare_unit_reports_50:
  "\<not> cac_Valid (demo_head_env (Store_Get demo_store)) bare_unit
   \<and> header (bytesHeadHandler (demo_head_env (Store_Get demo_store)) (ch_address bare_unit))
        ContentLengthHeader = [HInt 50]"
  by (simp add: head_defs)

text \<open>
  C4, amended. A length-only query whose root chunk is fetched answers 200 with a
  Content-Length that is, for a valid content-addressed chunk, the little-endian span
  of its first 8 bytes read as a signed 64-bit integer, which is the span itself
  whenever the span is below \<open>2 ^ 63\<close>, and otherwise the byte length of the chunk
  data. The root of a 1 MiB object reports 1048576 and a bare unit of 50 bytes
  reports 50.
\<close>

theorem head_reports_span:
  assumes "head_mapStructure e raw = Some a"
    and "getter_Get e (if IsZero (getAddressFromContext e) then a
                       else getAddressFromContext e) = Inr ch"
  shows "status (bytesHeadHandler e raw) = StatusOK
    \<and> header (bytesHeadHandler e raw) ContentLengthHeader
        = [HInt (if cac_Valid e ch
                 then sint (LittleEndian_Uint64 (take SpanSize (ch_data ch)))
                 else int (length (ch_data ch)))]
    \<and> (cac_Valid e ch \<and> LittleEndian_Uint64 (take SpanSize (ch_data ch)) < 2 ^ 63 \<longrightarrow>
         header (bytesHeadHandler e raw) ContentLengthHeader
           = [HInt (uint (LittleEndian_Uint64 (take SpanSize (ch_data ch))))])"
proof -
  from assms have st: "status (bytesHeadHandler e raw) = StatusOK"
    by (simp add: bytesHeadHandler_def Let_def split: if_splits)
  from assms have cl: "header (bytesHeadHandler e raw) ContentLengthHeader
        = [HInt (if cac_Valid e ch
                 then sint (LittleEndian_Uint64 (take SpanSize (ch_data ch)))
                 else int (length (ch_data ch)))]"
    by (simp add: bytesHeadHandler_def Let_def Header_Set_def split: if_splits)
  from st cl show ?thesis
    by (simp add: sint_below)
qed

theorem head_reports_span_witness:
  "head_mapStructure (demo_head_env (Store_Get demo_store)) (ch_address mib_root)
     = Some (ch_address mib_root)
   \<and> getter_Get (demo_head_env (Store_Get demo_store)) (ch_address mib_root) = Inr mib_root
   \<and> cac_Valid (demo_head_env (Store_Get demo_store)) mib_root
   \<and> LittleEndian_Uint64 (take SpanSize (ch_data mib_root)) < 2 ^ 63
   \<and> header (bytesHeadHandler (demo_head_env (Store_Get demo_store)) (ch_address mib_root))
        ContentLengthHeader = [HInt 1048576]
   \<and> getter_Get (demo_head_env (Store_Get demo_store)) (ch_address bare_unit) = Inr bare_unit
   \<and> \<not> cac_Valid (demo_head_env (Store_Get demo_store)) bare_unit
   \<and> header (bytesHeadHandler (demo_head_env (Store_Get demo_store)) (ch_address bare_unit))
        ContentLengthHeader = [HInt 50]"
proof -
  have ms: "head_mapStructure (demo_head_env (Store_Get demo_store)) (ch_address mib_root)
     = Some (ch_address mib_root)"
    by (simp add: head_defs)
  have g: "getter_Get (demo_head_env (Store_Get demo_store))
             (if IsZero (getAddressFromContext (demo_head_env (Store_Get demo_store)))
              then ch_address mib_root
              else getAddressFromContext (demo_head_env (Store_Get demo_store))) = Inr mib_root"
    by (simp add: head_defs)
  have v: "cac_Valid (demo_head_env (Store_Get demo_store)) mib_root"
    by (simp add: head_defs)
  have sp: "LittleEndian_Uint64 (take SpanSize (ch_data mib_root)) = 1048576"
    by (simp add: head_defs)
  have ms2: "head_mapStructure (demo_head_env (Store_Get demo_store)) (ch_address bare_unit)
     = Some (ch_address bare_unit)"
    by (simp add: head_defs)
  have g2: "getter_Get (demo_head_env (Store_Get demo_store))
             (if IsZero (getAddressFromContext (demo_head_env (Store_Get demo_store)))
              then ch_address bare_unit
              else getAddressFromContext (demo_head_env (Store_Get demo_store))) = Inr bare_unit"
    by (simp add: head_defs)
  have nv: "\<not> cac_Valid (demo_head_env (Store_Get demo_store)) bare_unit"
    by (simp add: head_defs)
  have len: "length (ch_data bare_unit) = 50"
    by (simp add: bare_unit_def)
  from head_reports_span [OF ms g] v sp
  have big: "header (bytesHeadHandler (demo_head_env (Store_Get demo_store)) (ch_address mib_root))
        ContentLengthHeader = [HInt 1048576]"
    by simp
  from head_reports_span [OF ms2 g2] nv len
  have small: "header (bytesHeadHandler (demo_head_env (Store_Get demo_store)) (ch_address bare_unit))
        ContentLengthHeader = [HInt 50]"
    by simp
  from g have g': "getter_Get (demo_head_env (Store_Get demo_store)) (ch_address mib_root) = Inr mib_root"
    by (simp add: head_defs)
  from g2 have g2': "getter_Get (demo_head_env (Store_Get demo_store)) (ch_address bare_unit) = Inr bare_unit"
    by (simp add: head_defs)
  from sp have lt: "LittleEndian_Uint64 (take SpanSize (ch_data mib_root)) < 2 ^ 63"
    by simp
  show ?thesis
    by (intro conjI) (rule ms g' v lt big g2' nv small)+
qed

text \<open>
  C4 as stated fails on a valid chunk whose span bytes are all \<open>0xff\<close>: the span
  field is 18446744073709551615 and the reported Content-Length is -1.
\<close>

theorem head_reports_span_counterexample:
  "getter_Get (demo_head_env (Store_Get demo_store)) (ch_address huge_span) = Inr huge_span
   \<and> cac_Valid (demo_head_env (Store_Get demo_store)) huge_span
   \<and> uint (LittleEndian_Uint64 (take SpanSize (ch_data huge_span))) = 18446744073709551615
   \<and> header (bytesHeadHandler (demo_head_env (Store_Get demo_store)) (ch_address huge_span))
        ContentLengthHeader = [HInt (- 1)]"
  by (simp add: head_defs)

text \<open>
  C7, amended. A download or a length-only query on an address that the Store does not
  hold answers Not Found. A download answers Not Found exactly when the fetch of the
  root unit fails with \<open>storage.ErrNotFound\<close>: over a Store whose Get fails on a miss
  and in no other way, exactly when the Store does not hold the address. A length-only
  query answers Not Found exactly when the fetch of the root chunk returns an error,
  whatever the error is.
\<close>

theorem query_not_found:
  assumes "head_mapStructure e raw = Some a"
    and "address = (if IsZero (getAddressFromContext e) then a else getAddressFromContext e)"
  shows "(getter_Get e = Store_Get store \<and> store address = None \<longrightarrow>
            status (bytesGetHandler e raw) = StatusNotFound
            \<and> status (bytesHeadHandler e raw) = StatusNotFound)
    \<and> (status (bytesGetHandler e raw) = StatusNotFound)
        = (\<exists>err. getter_Get e address = Inl err \<and> errors_Is err storage_ErrNotFound)
    \<and> (getter_Get e = Store_Get store \<longrightarrow>
         (status (bytesGetHandler e raw) = StatusNotFound) = (store address = None))
    \<and> (status (bytesHeadHandler e raw) = StatusNotFound)
        = (\<exists>err. getter_Get e address = Inl err)"
proof -
  have hd: "(status (bytesHeadHandler e raw) = StatusNotFound)
        = (\<exists>err. getter_Get e address = Inl err)"
    using assms
    by (cases "getter_Get e address")
       (simp_all add: bytesHeadHandler_def Let_def status_defs split: if_splits)
  have get: "(status (bytesGetHandler e raw) = StatusNotFound)
        = (\<exists>err. getter_Get e address = Inl err \<and> errors_Is err storage_ErrNotFound)"
    using assms
    by (cases "getter_Get e address")
       (simp_all add: bytesGetHandler_def downloadHandler_def Let_def status_defs
             split: if_splits)
  have miss: "(\<exists>err. Store_Get store address = Inl err \<and> errors_Is err storage_ErrNotFound)
        = (store address = None)"
    by (cases "store address") (simp_all add: Store_Get_def)
  have miss': "store address = None \<Longrightarrow> \<exists>err. Store_Get store address = Inl err"
    by (simp add: Store_Get_def)
  from hd get miss miss' show ?thesis
    by auto
qed

theorem query_not_found_witness:
  "head_mapStructure (demo_get_env (Store_Get demo_store)) [9] = Some [9]
   \<and> getter_Get (demo_get_env (Store_Get demo_store)) = Store_Get demo_store
   \<and> demo_store [9] = None
   \<and> status (bytesGetHandler (demo_get_env (Store_Get demo_store)) [9]) = StatusNotFound
   \<and> status (bytesHeadHandler (demo_get_env (Store_Get demo_store)) [9]) = StatusNotFound"
proof -
  have ms: "head_mapStructure (demo_get_env (Store_Get demo_store)) [9] = Some [9]"
    by (simp add: demo_get_env_def)
  have ad: "[9] = (if IsZero (getAddressFromContext (demo_get_env (Store_Get demo_store)))
                   then [9]
                   else getAddressFromContext (demo_get_env (Store_Get demo_store)))"
    by (simp add: demo_get_env_def IsZero_def)
  have g: "getter_Get (demo_get_env (Store_Get demo_store)) = Store_Get demo_store"
    by (simp add: demo_get_env_def)
  have ab: "demo_store [9] = None"
    by (simp add: head_defs)
  note r = query_not_found [OF ms ad, of demo_store]
  from r g ab
  have nfg: "status (bytesGetHandler (demo_get_env (Store_Get demo_store)) [9]) = StatusNotFound"
    by blast
  from r g ab
  have nfh: "status (bytesHeadHandler (demo_get_env (Store_Get demo_store)) [9]) = StatusNotFound"
    by blast
  show ?thesis
    by (intro conjI) (rule ms g ab nfg nfh)+
qed

text \<open>
  The same cancelled fetch, as a download: Internal Server Error, not Not Found. And
  the download of the single leaf of the 50-byte object streams its 50 bytes.
\<close>

lemma cancelled_download:
  "status (bytesGetHandler (demo_get_env (cancelled_Get demo_store)) (ch_address bare_unit))
     = StatusInternalServerError"
  by (simp add: bytesGetHandler_def downloadHandler_def demo_get_env_def cancelled_Get_def
        IsZero_def ZeroAddress_def bare_unit_def Let_def)

lemma small_leaf_download:
  "bytesGetHandler (demo_get_env (Store_Get demo_store)) (ch_address small_leaf) =
     \<lparr>status = StatusOK,
      header = Header_Set ContentTypeHeader (HStr ''application/octet-stream'') no_headers,
      body = Content (Inr (replicate 50 2))\<rparr>"
  by (simp add: bytesGetHandler_def downloadHandler_def demo_get_env_def demo_store_def
        Store_Get_def IsZero_def ZeroAddress_def SpanSize_def Let_def
        mib_root_def small_leaf_def bare_unit_def huge_span_def)

text \<open>
  C7 as stated fails for the length-only query: the Store holds the address, the
  fetch fails with the cancellation error of the request context, which is not
  \<open>storage.ErrNotFound\<close>, and the query still answers Not Found.
\<close>

theorem head_not_found_counterexample:
  "demo_store (ch_address bare_unit) = Some bare_unit
   \<and> getter_Get (demo_head_env (cancelled_Get demo_store)) (ch_address bare_unit)
       = Inl (Sentinel context_Canceled)
   \<and> \<not> errors_Is (Sentinel context_Canceled) storage_ErrNotFound
   \<and> status (bytesHeadHandler (demo_head_env (cancelled_Get demo_store)) (ch_address bare_unit))
       = StatusNotFound"
  by (simp add: head_defs cancelled_Get_def)

section \<open>Claims about the session tracker and the putter\<close>

lemma foldr_max_ge: "x \<in> set xs \<Longrightarrow> x \<le> foldr max xs (0::nat)"
  by (induction xs) (auto simp: max_def)

lemma fresh_id_fresh: "fresh_id ss \<notin> sid ` set ss"
proof
  assume "fresh_id ss \<in> sid ` set ss"
  then have "fresh_id ss \<in> set (map sid ss)" by simp
  from foldr_max_ge [OF this] show False
    by (simp add: fresh_id_def)
qed

text \<open>
  C6. A lookup with session id 0 allocates a new session: the id returned is not 0,
  no session had it, and the sessions afterwards are the old ones and the new one.
  A lookup with a nonzero id that no session has fails with \<open>storage.ErrNotFound\<close>
  and leaves the sessions as they were: no session is created.
\<close>

theorem session_lookup:
  "SessionTracker_GetOrCreate 0 ss = (Inr (fresh_id ss), ss @ [new_session (fresh_id ss)])
   \<and> fresh_id ss \<noteq> 0
   \<and> fresh_id ss \<notin> sid ` set ss
   \<and> sid ` set (snd (SessionTracker_GetOrCreate 0 ss)) = insert (fresh_id ss) (sid ` set ss)
   \<and> (i \<noteq> 0 \<and> i \<notin> sid ` set ss \<longrightarrow>
        SessionTracker_GetOrCreate i ss = (Inl (Sentinel storage_ErrNotFound), ss))"
  using fresh_id_fresh [of ss]
  by (simp add: SessionTracker_GetOrCreate_def fresh_id_def new_session_def)

theorem session_lookup_witness:
  "(5::nat) \<noteq> 0 \<and> 5 \<notin> sid ` set [new_session 1]
   \<and> SessionTracker_GetOrCreate 5 [new_session 1]
       = (Inl (Sentinel storage_ErrNotFound), [new_session 1])
   \<and> SessionTracker_GetOrCreate 0 [new_session 1] = (Inr 2, [new_session 1, new_session 2])"
proof -
  have a: "(5::nat) \<noteq> 0 \<and> 5 \<notin> sid ` set [new_session 1]"
    by (simp add: new_session_def)
  have f: "fresh_id [new_session 1] = 2"
    by (simp add: fresh_id_def new_session_def)
  from session_lookup [of "[new_session 1]" 5] a f show ?thesis
    by simp
qed

text \<open>
  What the handler does with a failed lookup (lines 60-71): Not Found for
  \<open>storage.ErrNotFound\<close>, Internal Server Error otherwise, and the run ends there.
\<close>

lemma unknown_session_not_found:
  assumes "mapStructure e raw = Inr h"
    and "defaultUploadMethod e (Deferred h) \<or> Pin h"
    and "getOrCreateSessionID e (SwarmTag h) st = (Inl err, st1)"
  shows "bytesUploadHandler e raw reqBody st =
           (\<lparr>status = (if errors_Is err storage_ErrNotFound then StatusNotFound
                        else StatusInternalServerError),
             header = no_headers,
             body = Message (if errors_Is err storage_ErrNotFound then ''tag not found''
                             else ''cannot get or create tag'')\<rparr>,
            st1,
            [EvGetOrCreateSessionID (SwarmTag h) (Inl err),
             EvWriteHeader (if errors_Is err storage_ErrNotFound then StatusNotFound
                            else StatusInternalServerError)])"
  using assms by (simp add: bytesUploadHandler_def writer_defs Let_def)

lemma unknown_session_run:
  "bytesUploadHandler (scripted_env ok_script) (plain_headers\<lparr>SwarmTag := 5, Pin := True\<rparr>) []
     world0 =
   (\<lparr>status = StatusNotFound, header = no_headers, body = Message ''tag not found''\<rparr>,
    world0,
    [EvGetOrCreateSessionID 5 (Inl (Sentinel storage_ErrNotFound)),
     EvWriteHeader StatusNotFound])"
  by (simp add: run_defs)

text \<open>
  C8. Cleanup never returns an error; a second Cleanup returns the state the first
  one left, unchanged; and after a Done that succeeded, Cleanup changes nothing.
\<close>

theorem cleanup_idempotent:
  "fst (Putter_Cleanup p) = None
   \<and> Putter_Cleanup (snd (Putter_Cleanup p)) = (None, snd (Putter_Cleanup p))
   \<and> (Putter_Done root p = (None, p') \<longrightarrow> Putter_Cleanup p' = (None, p'))"
  by (auto simp: Putter_Cleanup_def Putter_Done_def split: if_splits)

theorem cleanup_idempotent_witness:
  "Putter_Done [1] (w_putter world0) = (None, (w_putter world0)\<lparr>phase := Committed\<rparr>)
   \<and> Putter_Cleanup ((w_putter world0)\<lparr>phase := Committed\<rparr>)
       = (None, (w_putter world0)\<lparr>phase := Committed\<rparr>)"
proof -
  have d: "Putter_Done [1] (w_putter world0) = (None, (w_putter world0)\<lparr>phase := Committed\<rparr>)"
    by (simp add: Putter_Done_def world0_def)
  from cleanup_idempotent [of "w_putter world0" "[1]" "(w_putter world0)\<lparr>phase := Committed\<rparr>"] d
  show ?thesis
    by blast
qed

end
